theory Spec2Isabelle
  imports Main "HOL-Library.AList"
begin

section \<open>JavaScript values\<close>

text \<open>
  The adapter works on loosely typed JavaScript values: forms, documents, option objects
  and driver results. They are modelled by one datatype. An object is an association
  list in insertion order (\<open>AList.update\<close> overwrites a key in place and appends a new
  key, as a property assignment does; the special enumeration order of index-like keys
  is not represented). Numbers are integers: NaN and fractions are not represented.
\<close>

datatype jsval =
    JUndefined
  | JNull
  | JBool bool
  | JNum int
  | JStr string
  | JArr "jsval list"
  | JObj "(string \<times> jsval) list"

type_synonym obj = "(string \<times> jsval) list"

datatype error =
    GuardViolation string
  | TypeError string
  | StoreError jsval
  | UnexpectedError jsval

text \<open>Truthiness, as tested by \<open>if (x)\<close>, \<open>!x\<close> and \<open>x || y\<close>.\<close>

fun truthy :: "jsval \<Rightarrow> bool" where
  "truthy JUndefined = False"
| "truthy JNull = False"
| "truthy (JBool b) = b"
| "truthy (JNum n) = (n \<noteq> 0)"
| "truthy (JStr s) = (s \<noteq> [])"
| "truthy (JArr xs) = True"
| "truthy (JObj kvs) = True"

text \<open>
  Property read \<open>x.k\<close>: a \<open>TypeError\<close> on \<open>null\<close> and \<open>undefined\<close>, the
  stored value or \<open>undefined\<close> on an object, and \<open>undefined\<close> on the other values
  (for the property names read here, none of which is \<open>length\<close> or an index).
\<close>

fun getField :: "jsval \<Rightarrow> string \<Rightarrow> error + jsval" where
  "getField JUndefined k = Inl (TypeError k)"
| "getField JNull k = Inl (TypeError k)"
| "getField (JObj kvs) k = (case map_of kvs k of None \<Rightarrow> Inr JUndefined | Some v \<Rightarrow> Inr v)"
| "getField v k = Inr JUndefined"

text \<open>\<open>delete x.k\<close>: removes the key of an object, and does nothing on other values.\<close>

fun deleteField :: "jsval \<Rightarrow> string \<Rightarrow> jsval" where
  "deleteField (JObj kvs) k = JObj (AList.delete k kvs)"
| "deleteField v k = v"

text \<open>\<open>Hoek.assert(cond, message)\<close> throws when the condition is falsy.\<close>

definition hoek_assert :: "bool \<Rightarrow> string \<Rightarrow> (error + 'a) \<Rightarrow> error + 'a" where
  "hoek_assert cond msg rest = (if cond then rest else Inl (GuardViolation msg))"

section \<open>Strings\<close>

text \<open>
  A string is a sequence of code units below 256. Of the white space that
  \<open>String.prototype.trim\<close> strips, these are the code units 9 to 13, the space and the
  no-break space U+00A0; code units from 256 on, among them the remaining Unicode
  white space, are not represented. \<open>split\<close> and \<open>join\<close> are \<open>split(',')\<close> and
  \<open>join(',')\<close> for any separator.
\<close>

definition is_space :: "char \<Rightarrow> bool" where
  "is_space c =
     (c \<in> set [CHR '' '', CHR 0x09, CHR 0x0A, CHR 0x0B, CHR 0x0C, CHR 0x0D, CHR 0xA0])"

definition trim :: "string \<Rightarrow> string" where
  "trim s = rev (dropWhile is_space (rev (dropWhile is_space s)))"

fun split :: "char \<Rightarrow> string \<Rightarrow> string list" where
  "split c [] = [[]]"
| "split c (x # xs) =
     (if x = c then [] # split c xs
      else (case split c xs of [] \<Rightarrow> [[x]] | p # ps \<Rightarrow> (x # p) # ps))"


section \<open>OrderBuilder (MongoHelpers)\<close>

text \<open>
  \<open>buildArrayFunc\<close>: the \<open>forEach\<close> over the tokens, with \<open>results\<close> as the
  accumulator. An element that is not a string has no \<open>trim\<close> method, so the call
  throws.
\<close>

fun buildArrayFunc :: "obj \<Rightarrow> jsval list \<Rightarrow> error + obj" where
  "buildArrayFunc results [] = Inr results"
| "buildArrayFunc results (JStr s # arrs) =
     (let element = trim s in
      if take 1 element = ''-''
      then buildArrayFunc (AList.update (drop 1 element) (JNum (- 1)) results) arrs
      else buildArrayFunc (AList.update element (JNum 1) results) arrs)"
| "buildArrayFunc results (v # arrs) = Inl (TypeError ''trim'')"

text \<open>
  \<open>buildOrder\<close>: a falsy order gives \<open>null\<close>; an array goes through
  \<open>buildArrayFunc\<close>; the \<open>switch\<close> on \<open>typeof\<close> returns an object as it is and
  splits a string at the commas; any other value falls out of the \<open>switch\<close> and the
  function returns \<open>undefined\<close>.
\<close>

fun buildOrder :: "jsval \<Rightarrow> error + jsval" where
  "buildOrder order =
     (if \<not> truthy order then Inr JNull
      else (case order of
              JArr arrs \<Rightarrow> map_sum id JObj (buildArrayFunc [] arrs)
            | JObj kvs \<Rightarrow> Inr (JObj kvs)
            | JStr s \<Rightarrow> map_sum id JObj (buildArrayFunc [] (map JStr (split CHR '','' s)))
            | _ \<Rightarrow> Inr JUndefined))"

text \<open>
  \<open>buildSortOptions model opts\<close>, with the model's \<open>defaultOrder\<close> passed as a value.
  The result is the sort specification together with the caller's options object after
  the call (\<open>delete opts.order\<close> mutates it). When \<open>opts\<close> is falsy the function
  works on a fresh \<open>{}\<close> and the caller's value is untouched.
\<close>

definition buildSortOptions :: "jsval \<Rightarrow> jsval \<Rightarrow> error + (jsval \<times> jsval)" where
  "buildSortOptions defaultOrder opts0 =
     (let opts = (if truthy opts0 then opts0 else JObj []) in
      case getField opts ''order'' of Inl e \<Rightarrow> Inl e | Inr order \<Rightarrow>
      if truthy order
      then (case buildOrder order of
              Inl e \<Rightarrow> Inl e
            | Inr sortOptions \<Rightarrow> Inr (sortOptions, deleteField opts ''order''))
      else (case getField opts ''sort'' of Inl e \<Rightarrow> Inl e | Inr sortOpt \<Rightarrow>
      if truthy sortOpt
      then map_sum id (\<lambda>r. (r, opts)) (buildOrder sortOpt)
      else if truthy defaultOrder
      then map_sum id (\<lambda>r. (r, opts)) (buildOrder defaultOrder)
      else Inr (JNull, opts)))"

text \<open>
  \<open>buildFindOptions model opts\<close>: \<open>opts.sort = buildSortOptions(model, opts)\<close> on
  \<open>opts || {}\<close>, returning the options object. Only objects carry the new property
  (the assignment throws on a primitive value in strict mode; an array used as options
  object is not represented).
\<close>

fun setField :: "jsval \<Rightarrow> string \<Rightarrow> jsval \<Rightarrow> error + jsval" where
  "setField (JObj kvs) k v = Inr (JObj (AList.update k v kvs))"
| "setField x k v = Inl (TypeError k)"

definition buildFindOptions :: "jsval \<Rightarrow> jsval \<Rightarrow> error + jsval" where
  "buildFindOptions defaultOrder opts0 =
     (case buildSortOptions defaultOrder opts0 of
        Inl e \<Rightarrow> Inl e
      | Inr (sortOptions, opts) \<Rightarrow> setField opts ''sort'' sortOptions)"

section \<open>Entity schema, store and promises\<close>

text \<open>
  The entity schema is an external capability contract: a model class with a collection
  name, an optional default order, projections, and the optional members
  \<open>beforeSave\<close> and \<open>toQueryObject\<close>. Its methods are parameters of the model; an
  entity instance is the object built by \<open>new modelClass(form)\<close>.
\<close>

record schema =
  collectionName :: string
  defaultOrder :: jsval
  construct :: "jsval \<Rightarrow> obj"
  beforeSave :: "(bool \<Rightarrow> obj \<Rightarrow> obj) option"
  toInsertObject :: "obj \<Rightarrow> jsval"
  toFormObject :: "obj \<Rightarrow> jsval"
  toUpsertObject :: "obj \<Rightarrow> jsval"
  toQueryObject :: "(obj \<Rightarrow> jsval \<Rightarrow> jsval) option"

text \<open>
  A store command is the collection, the driver function and its arguments. The store
  answers a command with a result, with a \<open>MongoError\<close> or with another error.
\<close>

datatype store_call = Call string string "jsval list"

datatype reply = Ok jsval | MongoErr jsval | OtherErr jsval

text \<open>
  The environment of a call: the debug flag, the outcome of \<open>pool.connect\<close>, the
  store's answers, the two functions of the \<open>node-helpers\<close> package, the driver's
  \<open>ObjectID\<close> constructor (which throws on an invalid identifier), \<open>toString\<close> on a
  driver value, and the store's geo-proximity and sort stages.
\<close>

record env =
  isDebug :: bool
  connectErr :: "error option"
  respond :: "store_call \<Rightarrow> reply"
  isEmpty :: "jsval \<Rightarrow> bool"
  toSimpleObject :: "jsval \<Rightarrow> jsval"
  ObjectID :: "jsval \<Rightarrow> error + jsval"
  toStr :: "jsval \<Rightarrow> string"
  geoNear :: "jsval \<Rightarrow> jsval list"
  sortDocs :: "jsval \<Rightarrow> jsval list \<Rightarrow> jsval list"

text \<open>
  What the caller sees of a call: an exception thrown synchronously, a rejected or a
  resolved promise, or a promise that is never settled. A run pairs it with the store
  commands issued, in the order they were started (the store-call spy).
\<close>

datatype 'a outcome = Threw error | Rejected error | Resolved 'a | Pending

type_synonym 'a run = "store_call list \<times> 'a outcome"

definition sync :: "error + 'a run \<Rightarrow> 'a run" where
  "sync r = (case r of Inl e \<Rightarrow> ([], Threw e) | Inr x \<Rightarrow> x)"

text \<open>\<open>promise.then(f)\<close>: an exception in the callback rejects the promise.\<close>

definition andThen :: "'a run \<Rightarrow> ('a \<Rightarrow> error + 'b) \<Rightarrow> 'b run" where
  "andThen r f =
     (case snd r of
        Resolved v \<Rightarrow> (fst r, case f v of Inl e \<Rightarrow> Rejected e | Inr w \<Rightarrow> Resolved w)
      | Threw e \<Rightarrow> (fst r, Threw e)
      | Rejected e \<Rightarrow> (fst r, Rejected e)
      | Pending \<Rightarrow> (fst r, Pending))"

definition bindE :: "error + 'a \<Rightarrow> ('a \<Rightarrow> error + 'b) \<Rightarrow> error + 'b" where
  "bindE m f = (case m of Inl e \<Rightarrow> Inl e | Inr v \<Rightarrow> f v)"

section \<open>DocumentAdapter (BaseAdapter)\<close>

text \<open>
  \<open>query(funcName, ...args)\<close>: the promise is settled only from the callbacks of the
  store command. When \<open>connect\<close> rejects, or when \<open>catchException\<close> rethrows in
  debug mode, neither \<open>resolve\<close> nor \<open>reject\<close> is reached and the promise stays
  pending.
\<close>

definition query :: "env \<Rightarrow> string \<Rightarrow> string \<Rightarrow> jsval list \<Rightarrow> jsval run" where
  "query env coll funcName args =
     (if funcName = [] then ([], Threw (GuardViolation ''funcName must not be null''))
      else (case connectErr env of
              Some e \<Rightarrow> ([], Pending)
            | None \<Rightarrow>
                ([Call coll funcName args],
                 case respond env (Call coll funcName args) of
                   Ok result \<Rightarrow> Resolved result
                 | MongoErr e \<Rightarrow> Rejected (StoreError e)
                 | OtherErr e \<Rightarrow>
                     if isDebug env then Pending else Rejected (UnexpectedError e))))"

text \<open>\<open>if (m.beforeSave) { m.beforeSave(isInsert); }\<close>\<close>

definition applyBeforeSave :: "schema \<Rightarrow> bool \<Rightarrow> obj \<Rightarrow> obj" where
  "applyBeforeSave sch isInsert m =
     (case beforeSave sch of None \<Rightarrow> m | Some hook \<Rightarrow> hook isInsert m)"

text \<open>
  \<open>m.toQueryObject ? m.toQueryObject(params) : helpers.Model.toSimpleObject(params)\<close>
\<close>

definition queryObjectOf :: "env \<Rightarrow> schema \<Rightarrow> obj \<Rightarrow> jsval \<Rightarrow> jsval" where
  "queryObjectOf env sch m params =
     (case toQueryObject sch of
        Some project \<Rightarrow> project m params
      | None \<Rightarrow> toSimpleObject env params)"

text \<open>
  The \<open>if (form._id) ... else if (model.toQueryObject) ... else ...\<close> chain of
  \<open>getOne\<close>, \<open>exists\<close> and \<open>deleteOne\<close>.
\<close>

definition paramsOf :: "env \<Rightarrow> schema \<Rightarrow> obj \<Rightarrow> jsval \<Rightarrow> error + jsval" where
  "paramsOf env sch m form =
     bindE (getField form ''_id'') (\<lambda>ident.
       if truthy ident
       then bindE (ObjectID env ident) (\<lambda>oid. Inr (JObj [(''_id'', oid)]))
       else Inr (queryObjectOf env sch m form))"

definition insertOne :: "env \<Rightarrow> schema \<Rightarrow> jsval \<Rightarrow> obj run" where
  "insertOne env sch model =
     (let insertModel = applyBeforeSave sch True (construct sch model);
          requestDoc = toInsertObject sch insertModel in
      sync (hoek_assert (\<not> isEmpty env requestDoc) ''Request document must not be empty''
        (Inr (andThen (query env (collectionName sch) ''insertOne'' [requestDoc])
           (\<lambda>result. bindE (getField result ''insertedId'') (\<lambda>ident.
              Inr (AList.update ''_id'' ident insertModel)))))))"

definition updateOne :: "env \<Rightarrow> schema \<Rightarrow> jsval \<Rightarrow> jsval \<Rightarrow> jsval run" where
  "updateOne env sch model params =
     (let updateModel0 = construct sch model;
          queryParams = queryObjectOf env sch updateModel0 params;
          updateModel = applyBeforeSave sch False updateModel0;
          requestDoc = toFormObject sch updateModel in
      sync (hoek_assert (\<not> isEmpty env queryParams) ''Query params must not be empty''
        (hoek_assert (\<not> isEmpty env requestDoc) ''Request document must not be empty''
          (Inr (andThen
             (query env (collectionName sch) ''updateOne''
                [queryParams, JObj [(''$set'', requestDoc)]])
             (\<lambda>result. getField result ''modifiedCount''))))))"

definition updateOneSimple :: "env \<Rightarrow> schema \<Rightarrow> jsval \<Rightarrow> jsval \<Rightarrow> jsval run" where
  "updateOneSimple env sch form qry =
     (let params = toSimpleObject env form;
          queryParams = toSimpleObject env qry in
      sync (hoek_assert (truthy qry) ''Empty query, cannot update data''
        (Inr (andThen
           (query env (collectionName sch) ''updateOne''
              [queryParams, JObj [(''$set'', params)]])
           (\<lambda>result. getField result ''modifiedCount'')))))"

definition updateMany :: "env \<Rightarrow> schema \<Rightarrow> jsval \<Rightarrow> jsval \<Rightarrow> jsval run" where
  "updateMany env sch model params =
     (let updateModel0 = construct sch model;
          queryParams = queryObjectOf env sch updateModel0 params;
          updateModel = applyBeforeSave sch False updateModel0;
          requestDoc = toFormObject sch updateModel in
      sync (hoek_assert (\<not> isEmpty env queryParams) ''Query parms must not be empty''
        (hoek_assert (\<not> isEmpty env requestDoc) ''Request document must not be empty''
          (Inr (andThen
             (query env (collectionName sch) ''updateMany''
                [queryParams, JObj [(''$set'', requestDoc)]])
             (\<lambda>result. getField result ''modifiedCount''))))))"

definition updateManySimple :: "env \<Rightarrow> schema \<Rightarrow> jsval \<Rightarrow> jsval \<Rightarrow> jsval run" where
  "updateManySimple env sch form qry =
     (let params = toSimpleObject env form;
          queryParams = toSimpleObject env qry in
      sync (hoek_assert (\<not> isEmpty env qry) ''Query params must not be empty''
        (Inr (andThen
           (query env (collectionName sch) ''updateMany''
              [queryParams, JObj [(''$set'', params)]])
           (\<lambda>result. getField result ''modifiedCount'')))))"

text \<open>
  \<open>upsertOne\<close>: the predicate is read from the upsert document
  (\<open>requestDoc.$setOnInsert\<close>) before the two guards.
\<close>

definition upsertOne :: "env \<Rightarrow> schema \<Rightarrow> jsval \<Rightarrow> obj run" where
  "upsertOne env sch model =
     (let updateModel = applyBeforeSave sch True (construct sch model);
          requestDoc = toUpsertObject sch updateModel in
      sync (bindE (getField requestDoc ''$setOnInsert'') (\<lambda>queryParams.
        hoek_assert (\<not> isEmpty env queryParams) ''Query params must not be empty''
          (hoek_assert (\<not> isEmpty env requestDoc) ''Request document must not be empty''
            (Inr (andThen
               (query env (collectionName sch) ''updateOne''
                  [queryParams, requestDoc, JObj [(''upsert'', JBool True)]])
               (\<lambda>result.
                  bindE (getField result ''upsertedCount'') (\<lambda>cnt.
                  bindE (getField result ''upsertedId'') (\<lambda>upsertedId.
                    if truthy upsertedId
                    then bindE (getField upsertedId ''_id'') (\<lambda>ident.
                           if ident = JUndefined \<or> ident = JNull
                           then Inl (TypeError ''toString'')
                           else Inr (AList.update ''_id'' (JStr (toStr env ident)) updateModel))
                    else Inr updateModel)))))))))"

definition getOne :: "env \<Rightarrow> schema \<Rightarrow> jsval \<Rightarrow> jsval \<Rightarrow> jsval run" where
  "getOne env sch form opts0 =
     (let model = construct sch JUndefined in
      sync (bindE (paramsOf env sch model form) (\<lambda>params.
            bindE (buildFindOptions (defaultOrder sch) opts0) (\<lambda>opts.
              Inr (andThen (query env (collectionName sch) ''findOne'' [params, opts])
                     (\<lambda>result. Inr result))))))"

definition getOneSimple :: "env \<Rightarrow> schema \<Rightarrow> jsval \<Rightarrow> jsval run" where
  "getOneSimple env sch form =
     (let params = toSimpleObject env form in
      sync (hoek_assert (\<not> isEmpty env params) ''Params must not be empty''
        (Inr (andThen (query env (collectionName sch) ''findOne'' [params])
               (\<lambda>result. Inr result)))))"

text \<open>
  The callback of \<open>getOneAndUpdate\<close> and \<open>getOneAndUpsert\<close>:
  \<open>if (!result.ok) return null; return result.value\<close>.
\<close>

definition unwrapEnvelope :: "jsval \<Rightarrow> error + jsval" where
  "unwrapEnvelope result =
     bindE (getField result ''ok'') (\<lambda>ok.
       if \<not> truthy ok then Inr JNull else getField result ''value'')"

definition getOneAndUpdate :: "env \<Rightarrow> schema \<Rightarrow> jsval \<Rightarrow> jsval \<Rightarrow> jsval \<Rightarrow> jsval run" where
  "getOneAndUpdate env sch form qry opts =
     (let updateModel0 = construct sch form;
          queryParams = queryObjectOf env sch updateModel0 qry;
          updateModel = applyBeforeSave sch False updateModel0;
          requestDoc = toFormObject sch updateModel in
      sync (hoek_assert (\<not> isEmpty env queryParams) ''Query params must not be empty''
        (hoek_assert (\<not> isEmpty env requestDoc) ''Request document must not be empty''
          (Inr (andThen
             (query env (collectionName sch) ''findOneAndUpdate''
                [queryParams, JObj [(''$set'', requestDoc)], opts])
             unwrapEnvelope)))))"

definition getOneAndUpsert :: "env \<Rightarrow> schema \<Rightarrow> jsval \<Rightarrow> jsval \<Rightarrow> jsval \<Rightarrow> jsval run" where
  "getOneAndUpsert env sch form qry opts0 =
     (let updateModel0 = construct sch form;
          queryParams = queryObjectOf env sch updateModel0 qry;
          updateModel = applyBeforeSave sch False updateModel0;
          requestDoc = toUpsertObject sch updateModel in
      sync (bindE (setField opts0 ''upsert'' (JBool True)) (\<lambda>opts.
        hoek_assert (\<not> isEmpty env queryParams) ''Query params must not be empty''
          (hoek_assert (\<not> isEmpty env requestDoc) ''Request document must not be empty''
            (Inr (andThen
               (query env (collectionName sch) ''findOneAndUpdate''
                  [queryParams, requestDoc, opts])
               unwrapEnvelope))))))"

text \<open>
  \<open>exists\<close> runs inside the callback of \<open>connect\<close>, within a promise executor: an
  exception there (also the guard's) settles nothing and the promise stays pending. The
  cursor chain \<open>find(params).limit(1).count()\<close> is one store command; its answer is a
  number.
\<close>

definition exists :: "env \<Rightarrow> schema \<Rightarrow> jsval \<Rightarrow> jsval run" where
  "exists env sch form =
     (let model = construct sch JUndefined in
      case connectErr env of
        Some e \<Rightarrow> ([], Pending)
      | None \<Rightarrow>
         (case bindE (paramsOf env sch model form) (\<lambda>params.
                 hoek_assert (\<not> isEmpty env params) ''Params must not be empty'' (Inr params)) of
            Inl e \<Rightarrow> ([], Pending)
          | Inr params \<Rightarrow>
              ([Call (collectionName sch) ''find.limit.count'' [params, JNum 1]],
               case respond env (Call (collectionName sch) ''find.limit.count'' [params, JNum 1]) of
                 Ok cnt \<Rightarrow> Resolved (JBool (case cnt of JNum n \<Rightarrow> n > 0 | _ \<Rightarrow> False))
               | MongoErr e \<Rightarrow> Rejected (StoreError e)
               | OtherErr e \<Rightarrow>
                   if isDebug env then Pending else Rejected (UnexpectedError e))))"

definition deleteOne :: "env \<Rightarrow> schema \<Rightarrow> jsval \<Rightarrow> jsval run" where
  "deleteOne env sch form =
     (let model = construct sch JUndefined in
      sync (bindE (paramsOf env sch model form) (\<lambda>params.
        hoek_assert (\<not> isEmpty env params) ''Params must not be empty''
          (Inr (andThen (query env (collectionName sch) ''deleteOne'' [params])
                 (\<lambda>result. getField result ''deletedCount''))))))"

definition deleteOneSimple :: "env \<Rightarrow> schema \<Rightarrow> jsval \<Rightarrow> jsval run" where
  "deleteOneSimple env sch form =
     (let params = toSimpleObject env form in
      sync (hoek_assert (\<not> isEmpty env params) ''Params must not be empty''
        (Inr (andThen (query env (collectionName sch) ''deleteOne'' [params])
               (\<lambda>result. getField result ''deletedCount'')))))"

definition deleteMany :: "env \<Rightarrow> schema \<Rightarrow> jsval \<Rightarrow> jsval run" where
  "deleteMany env sch form =
     (let model = construct sch JUndefined;
          params = queryObjectOf env sch model form in
      sync (hoek_assert (\<not> isEmpty env params) ''Params must not be empty''
        (Inr (andThen (query env (collectionName sch) ''deleteMany'' [params])
               (\<lambda>result. getField result ''deletedCount'')))))"

definition deleteManySimple :: "env \<Rightarrow> schema \<Rightarrow> jsval \<Rightarrow> jsval run" where
  "deleteManySimple env sch form =
     (let params = toSimpleObject env form in
      sync (hoek_assert (\<not> isEmpty env params) ''Params must not be empty''
        (Inr (andThen (query env (collectionName sch) ''deleteMany'' [params])
               (\<lambda>result. getField result ''deletedCount'')))))"

section \<open>The store's aggregation stages\<close>

text \<open>
  The aggregation engine of the document store is an external collaborator: the
  repository only builds the pipeline and reads the result. Its stages are modelled from
  section 4.3 of the spec, as far as the pipelines built here use them.
\<close>

text \<open>
  Modelled from the spec: the group key of a document in the store's group stage, the
  value of the configured primary key; a document without the key falls under the key
  \<open>null\<close>.
\<close>

definition docKey :: "string \<Rightarrow> jsval \<Rightarrow> jsval" where
  "docKey pk d =
     (case getField d pk of Inl e \<Rightarrow> JNull | Inr v \<Rightarrow> if v = JUndefined then JNull else v)"

text \<open>
  Modelled from the spec: the store's group stage, which "groups candidates by a
  configured primary key and keeps only the first document encountered per group". The
  groups come out in the order of their first documents.
\<close>

fun groupFirst :: "string \<Rightarrow> string \<Rightarrow> jsval list \<Rightarrow> jsval list \<Rightarrow> jsval list" where
  "groupFirst pk fld seen [] = []"
| "groupFirst pk fld seen (d # ds) =
     (if docKey pk d \<in> set seen then groupFirst pk fld seen ds
      else JObj [(''_id'', docKey pk d), (fld, d)] # groupFirst pk fld (docKey pk d # seen) ds)"

text \<open>
  Modelled from the spec: one stage of the store's aggregation. The geo-proximity filter
  and the sort are the environment's \<open>geoNear\<close> and \<open>sortDocs\<close>, a limit stage keeps a
  prefix, a group stage with a field path as key and \<open>$first: '$$ROOT'\<close> as its one
  accumulator is \<open>groupFirst\<close>; the store rejects any other stage.
\<close>

definition runStage :: "env \<Rightarrow> jsval \<Rightarrow> jsval list \<Rightarrow> error + jsval list" where
  "runStage env stage docs =
     (case stage of
        JObj [(name, spec)] \<Rightarrow>
          if name = ''$geoNear'' then Inr (geoNear env spec)
          else if name = ''$sort'' then Inr (sortDocs env spec docs)
          else if name = ''$limit''
          then (case spec of JNum n \<Rightarrow> Inr (take (nat n) docs)
                | _ \<Rightarrow> Inl (StoreError stage))
          else if name = ''$group''
          then (case spec of
                  JObj [(idk, JStr path), (fld, JObj [(acc, JStr root)])] \<Rightarrow>
                    if idk = ''_id'' \<and> take 1 path = ''$'' \<and> acc = ''$first'' \<and> root = ''$$ROOT''
                    then Inr (groupFirst (drop 1 path) fld [] docs)
                    else Inl (StoreError stage)
                | _ \<Rightarrow> Inl (StoreError stage))
          else Inl (StoreError stage)
      | _ \<Rightarrow> Inl (StoreError stage))"

text \<open>
  Modelled from the spec: the store runs the stages of a pipeline in order, each on the
  output of the one before.
\<close>

fun runPipeline :: "env \<Rightarrow> jsval list \<Rightarrow> jsval list \<Rightarrow> error + jsval list" where
  "runPipeline env [] docs = Inr docs"
| "runPipeline env (stage # stages) docs =
     bindE (runStage env stage docs) (runPipeline env stages)"

text \<open>
  \<open>collection.aggregate(pipeline).toArray()\<close>: one store command, answered by the store's
  run of the pipeline. The cursor's \<open>limit(n)\<close> appends a limit stage to the pipeline
  before it is sent. The answer is the modelled run, not \<open>respond\<close>: a store that
  refuses a well-formed pipeline (a missing geospatial index, a lost connection) is
  outside this model, and what is proved of the finders is about the documents they
  return.
\<close>

definition aggregate :: "env \<Rightarrow> string \<Rightarrow> jsval list \<Rightarrow> jsval list run" where
  "aggregate env coll pipeline =
     ([Call coll ''aggregate'' pipeline],
      case runPipeline env pipeline [] of Inl e \<Rightarrow> Rejected e | Inr docs \<Rightarrow> Resolved docs)"

section \<open>ProximityQueryBuilder (UserActivityAdapter)\<close>

text \<open>
  The adapter is bound to its entity schema, the schema of the sibling log adapter and
  the primary key of the group stage.
\<close>

record activity_adapter =
  modelSchema :: schema
  logSchema :: schema
  primaryKey :: string

text \<open>\<open>x || undefined\<close>\<close>

definition orUndefined :: "jsval \<Rightarrow> jsval" where
  "orUndefined v = (if truthy v then v else JUndefined)"

definition findAroundQuery :: "activity_adapter \<Rightarrow> jsval \<Rightarrow> jsval \<Rightarrow> error + jsval list" where
  "findAroundQuery ad geoParams actParams =
     bindE (getField actParams ''activity'') (\<lambda>activity.
     let qry = (if activity \<noteq> JNull then [(''activity'', activity)] else []) in
     bindE (getField geoParams ''geometry'') (\<lambda>geometry.
     bindE (getField geoParams ''maxDistance'') (\<lambda>maxDistance.
     bindE (getField geoParams ''minDistance'') (\<lambda>minDistance.
       Inr [JObj [(''$geoNear'', JObj [(''near'', geometry),
                                       (''maxDistance'', orUndefined maxDistance),
                                       (''minDistance'', orUndefined minDistance),
                                       (''distanceField'', JStr ''distance''),
                                       (''query'', JObj qry),
                                       (''spherical'', JBool True)])],
            JObj [(''$sort'', JObj [(''distance'', JNum (- 1)), (''status'', JNum (- 1))])],
            JObj [(''$group'', JObj [(''_id'', JStr (CHR ''$'' # primaryKey ad)),
                                     (''activity'', JObj [(''$first'', JStr ''$$ROOT'')])])]]))))"

text \<open>\<open>results.forEach(element => response.push(element.activity))\<close>\<close>

fun activities :: "jsval list \<Rightarrow> error + jsval list" where
  "activities [] = Inr []"
| "activities (element # results) =
     bindE (getField element ''activity'') (\<lambda>a.
     bindE (activities results) (\<lambda>response. Inr (a # response)))"

text \<open>
  Both finders return the promise chain of \<open>connect\<close>: a failed connection, an exception
  while the pipeline is built and a store error all reject it.
\<close>

definition findManyAround :: "env \<Rightarrow> activity_adapter \<Rightarrow> jsval \<Rightarrow> jsval \<Rightarrow> jsval list run" where
  "findManyAround env ad geoParams actParams =
     (case connectErr env of
        Some e \<Rightarrow> ([], Rejected e)
      | None \<Rightarrow>
         (case findAroundQuery ad geoParams actParams of
            Inl e \<Rightarrow> ([], Rejected e)
          | Inr queryData \<Rightarrow>
              andThen (aggregate env (collectionName (modelSchema ad)) queryData) activities))"

definition findOneAround :: "env \<Rightarrow> activity_adapter \<Rightarrow> jsval \<Rightarrow> jsval \<Rightarrow> jsval run" where
  "findOneAround env ad geoParams actParams =
     (case connectErr env of
        Some e \<Rightarrow> ([], Rejected e)
      | None \<Rightarrow>
         (case findAroundQuery ad geoParams actParams of
            Inl e \<Rightarrow> ([], Rejected e)
          | Inr queryData \<Rightarrow>
              andThen (aggregate env (collectionName (modelSchema ad))
                         (queryData @ [JObj [(''$limit'', JNum 1)]]))
                (\<lambda>results. case results of
                     [] \<Rightarrow> Inr JNull
                   | r # rs \<Rightarrow> getField r ''activity'')))"

text \<open>
  The \<open>upsertOne\<close> override. The log insert and the index creation are started but their
  promises are neither returned nor awaited: their outcomes are recorded apart, as
  detached tasks, each with the value of its own \<open>then\<close> callback (\<open>undefined\<close>). The
  primary outcome is the promise chain of \<open>connect\<close> and of the collection's
  \<open>updateOne\<close>, which has no \<open>catch\<close>. The commands are listed in the order they reach
  the store: \<open>logAdapter.query\<close> is called first but sends its insert only from the
  callback of its own \<open>connect\<close>, after the callback that calls \<open>updateOne\<close> has
  returned; the index creation is sent from the callback of \<open>updateOne\<close>. When reading
  \<open>requestDoc.$setOnInsert\<close> throws, the log insert has already been started.
\<close>

record 'a upsert_run =
  primary :: "'a outcome"
  issued :: "store_call list"
  detached :: "jsval outcome list"

definition promiseOf :: "reply \<Rightarrow> jsval outcome" where
  "promiseOf r =
     (case r of
        Ok v \<Rightarrow> Resolved v
      | MongoErr e \<Rightarrow> Rejected (StoreError e)
      | OtherErr e \<Rightarrow> Rejected (UnexpectedError e))"

definition upsertOneActivity :: "env \<Rightarrow> activity_adapter \<Rightarrow> jsval \<Rightarrow> obj upsert_run" where
  "upsertOneActivity env ad model =
     (let logModel0 = construct (logSchema ad) model;
          insertModel0 = construct (modelSchema ad) model in
      case connectErr env of
        Some e \<Rightarrow> \<lparr>primary = Rejected e, issued = [], detached = []\<rparr>
      | None \<Rightarrow>
         (let logModel = applyBeforeSave (logSchema ad) True logModel0;
              insertModel = applyBeforeSave (modelSchema ad) True insertModel0;
              coll = collectionName (modelSchema ad);
              requestLogDoc = toInsertObject (logSchema ad) logModel;
              requestDoc = toUpsertObject (modelSchema ad) insertModel;
              logTask = andThen (query env (collectionName (logSchema ad)) ''insertOne'' [requestLogDoc])
                          (\<lambda>result. bindE (getField result ''insertedId'') (\<lambda>i. Inr JUndefined))
          in case getField requestDoc ''$setOnInsert'' of
               Inl e \<Rightarrow> \<lparr>primary = Rejected e, issued = fst logTask, detached = [snd logTask]\<rparr>
             | Inr onInsert \<Rightarrow>
                (let upd = Call coll ''updateOne'' [onInsert, requestDoc, JObj [(''upsert'', JBool True)]];
                     idx = Call coll ''createIndex'' [JObj [(''location'', JStr ''2dsphere'')]];
                     indexTask = andThen ([idx], promiseOf (respond env idx))
                                   (\<lambda>indexName. Inr JUndefined)
                 in case respond env upd of
                      Ok result \<Rightarrow>
                        \<lparr>primary =
                           (case getField result ''upsertedId'' of
                              Inl e \<Rightarrow> Rejected e
                            | Inr upsertedId \<Rightarrow> Resolved (AList.update ''_id'' upsertedId insertModel)),
                         issued = upd # fst logTask @ fst indexTask,
                         detached = [snd logTask, snd indexTask]\<rparr>
                    | MongoErr e \<Rightarrow>
                        \<lparr>primary = Rejected (StoreError e),
                         issued = upd # fst logTask,
                         detached = [snd logTask]\<rparr>
                    | OtherErr e \<Rightarrow>
                        \<lparr>primary = Rejected (UnexpectedError e),
                         issued = upd # fst logTask,
                         detached = [snd logTask]\<rparr>)))"

section \<open>Notions used to state the properties\<close>


text \<open>The query predicate of a store command is its first argument.\<close>

definition predicateOf :: "store_call \<Rightarrow> jsval" where
  "predicateOf c = (case c of Call coll f args \<Rightarrow> (case args of [] \<Rightarrow> JUndefined | p # rest \<Rightarrow> p))"

text \<open>
  The first document of each key that is not in \<open>seen\<close>, in the order of the
  documents.
\<close>

fun firstPerKey :: "string \<Rightarrow> jsval list \<Rightarrow> jsval list \<Rightarrow> jsval list" where
  "firstPerKey pk seen [] = []"
| "firstPerKey pk seen (d # ds) =
     (if docKey pk d \<in> set seen then firstPerKey pk seen ds
      else d # firstPerKey pk (docKey pk d # seen) ds)"

text \<open>
  The two side effects of the \<open>upsertOne\<close> override: the insert into the log collection
  and the index creation.
\<close>

definition sideEffectCall :: "activity_adapter \<Rightarrow> store_call \<Rightarrow> bool" where
  "sideEffectCall ad c =
     (case c of Call coll f args \<Rightarrow>
        (f = ''insertOne'' \<and> coll = collectionName (logSchema ad)) \<or> f = ''createIndex'')"

section \<open>Fixtures\<close>

text \<open>
  The general theorems hold for any \<open>isEmpty\<close> and \<open>toSimpleObject\<close> of the
  environment; the two functions below only serve at concrete inputs.
\<close>

text \<open>
  Modelled from the spec: \<open>helpers.Data.isEmpty\<close> of the external \<open>node-helpers\<close>
  package, which is not in the repository's sources. It holds of \<open>null\<close>,
  \<open>undefined\<close> and of a string, array or object without content ("empty predicate",
  "empty document").
\<close>

definition emptyValue :: "jsval \<Rightarrow> bool" where
  "emptyValue v =
     (case v of
        JUndefined \<Rightarrow> True
      | JNull \<Rightarrow> True
      | JStr s \<Rightarrow> s = []
      | JArr xs \<Rightarrow> xs = []
      | JObj kvs \<Rightarrow> kvs = []
      | _ \<Rightarrow> False)"

text \<open>
  Modelled from the spec: \<open>helpers.Model.toSimpleObject\<close> of the same package, the
  "generic shallow-copy-of-non-null-fields projection".
\<close>

definition simpleObject :: "jsval \<Rightarrow> jsval" where
  "simpleObject v =
     (case v of
        JObj kvs \<Rightarrow> JObj (filter (\<lambda>kv. snd kv \<noteq> JNull \<and> snd kv \<noteq> JUndefined) kvs)
      | _ \<Rightarrow> JObj [])"

text \<open>
  A stand-in for the \<open>ObjectID\<close> constructor of the driver, which is not in the
  repository's sources: it accepts a string of 12 characters or of 24 hexadecimal
  digits and a number, and throws on any other value.
\<close>

definition isHexDigit :: "char \<Rightarrow> bool" where
  "isHexDigit c = (c \<in> set ''0123456789abcdefABCDEF'')"

definition driverObjectID :: "jsval \<Rightarrow> error + jsval" where
  "driverObjectID v =
     (case v of
        JStr s \<Rightarrow>
          if length s = 12 \<or> (length s = 24 \<and> list_all isHexDigit s)
          then Inr (JObj [(''$oid'', JStr s)])
          else Inl (UnexpectedError (JStr ''Argument passed in must be a single String''))
      | JNum n \<Rightarrow> Inr (JObj [(''$oid'', JNum n)])
      | _ \<Rightarrow> Inl (UnexpectedError (JStr ''Argument passed in must be a single String'')))"

text \<open>
  A store that answers every command with one envelope, an entity schema without
  optional members, one with a \<open>toQueryObject\<close> projection on the field \<open>name\<close>, and an
  activity adapter keyed by \<open>userId\<close>.
\<close>

definition fieldsOf :: "jsval \<Rightarrow> obj" where
  "fieldsOf v = (case v of JObj kvs \<Rightarrow> kvs | _ \<Rightarrow> [])"

definition sampleEnvelope :: jsval where
  "sampleEnvelope =
     JObj [(''ok'', JNum 1), (''value'', JObj [(''name'', JStr ''ann'')]),
           (''modifiedCount'', JNum 1), (''deletedCount'', JNum 1),
           (''insertedId'', JNum 7), (''upsertedCount'', JNum 0), (''upsertedId'', JNull)]"

definition sampleDocs :: "jsval list" where
  "sampleDocs =
     [JObj [(''userId'', JStr ''u1''), (''distance'', JNum 9)],
      JObj [(''userId'', JStr ''u2''), (''distance'', JNum 5)],
      JObj [(''userId'', JStr ''u1''), (''distance'', JNum 2)]]"

definition sampleEnv :: env where
  "sampleEnv =
     \<lparr>isDebug = False, connectErr = None, respond = (\<lambda>c. Ok sampleEnvelope),
      isEmpty = emptyValue, toSimpleObject = simpleObject,
      ObjectID = driverObjectID, toStr = (\<lambda>v. ''id''),
      geoNear = (\<lambda>spec. sampleDocs), sortDocs = (\<lambda>spec docs. docs)\<rparr>"

definition envAnswering :: "jsval \<Rightarrow> env" where
  "envAnswering r = sampleEnv\<lparr>respond := (\<lambda>c. Ok r)\<rparr>"

definition sampleSchema :: schema where
  "sampleSchema =
     \<lparr>collectionName = ''activity'', defaultOrder = JUndefined, construct = fieldsOf,
      beforeSave = None, toInsertObject = JObj, toFormObject = JObj,
      toUpsertObject = (\<lambda>m. JObj [(''$setOnInsert'', JObj (filter (\<lambda>kv. fst kv = ''userId'') m)),
                                   (''$set'', JObj m)]),
      toQueryObject = None\<rparr>"

definition namedSchema :: schema where
  "namedSchema = sampleSchema\<lparr>toQueryObject :=
       Some (\<lambda>m form. JObj (filter (\<lambda>kv. fst kv = ''name'') (fieldsOf form)))\<rparr>"

definition sampleAdapter :: activity_adapter where
  "sampleAdapter =
     \<lparr>modelSchema = sampleSchema, logSchema = sampleSchema\<lparr>collectionName := ''activity_log''\<rparr>,
      primaryKey = ''userId''\<rparr>"

text \<open>The same store with both side effects of the activity adapter failing.\<close>

definition failingEnv :: env where
  "failingEnv = sampleEnv\<lparr>respond := (\<lambda>c.
       if sideEffectCall sampleAdapter c then OtherErr (JStr ''down'') else Ok sampleEnvelope)\<rparr>"

section \<open>OrderBuilder: properties\<close>






lemma trim_name: "trim ''name'' = ''name''" and trim_age: "trim ''-age'' = ''-age''"
  by (simp_all add: trim_def is_space_def)




lemma trim_x: "trim ''x'' = ''x''"
  by (simp add: trim_def is_space_def)

text \<open>
  Claim C6. An option applies when its value is truthy. For an options object, an
  \<open>order\<close> option that applies decides the result, and the object is left without
  \<open>order\<close> and with its \<open>sort\<close> untouched; otherwise a \<open>sort\<close> option that applies
  decides it; otherwise the schema's default order, if it applies; otherwise the result
  is \<open>null\<close>. In the last three cases the options object is unchanged. An error of
  \<open>buildOrder\<close> is passed on. Absent options behave as the empty options object.
\<close>

theorem buildSortOptions_precedence:
  assumes "getField (JObj kvs) ''order'' = Inr ord" and "getField (JObj kvs) ''sort'' = Inr srt"
  shows
   "(truthy ord \<longrightarrow>
       buildSortOptions dflt (JObj kvs) =
         map_sum id (\<lambda>s. (s, JObj (AList.delete ''order'' kvs))) (buildOrder ord) \<and>
       getField (JObj (AList.delete ''order'' kvs)) ''order'' = Inr JUndefined \<and>
       getField (JObj (AList.delete ''order'' kvs)) ''sort'' = Inr srt) \<and>
    (\<not> truthy ord \<and> truthy srt \<longrightarrow>
       buildSortOptions dflt (JObj kvs) = map_sum id (\<lambda>s. (s, JObj kvs)) (buildOrder srt)) \<and>
    (\<not> truthy ord \<and> \<not> truthy srt \<and> truthy dflt \<longrightarrow>
       buildSortOptions dflt (JObj kvs) = map_sum id (\<lambda>s. (s, JObj kvs)) (buildOrder dflt)) \<and>
    (\<not> truthy ord \<and> \<not> truthy srt \<and> \<not> truthy dflt \<longrightarrow>
       buildSortOptions dflt (JObj kvs) = Inr (JNull, JObj kvs)) \<and>
    (\<not> truthy absent \<longrightarrow> buildSortOptions dflt absent = buildSortOptions dflt (JObj []))"
proof -
  have 7: "\<not> truthy absent \<Longrightarrow> buildSortOptions dflt absent = buildSortOptions dflt (JObj [])"
    by (simp add: buildSortOptions_def)
  have del: "map_of (AList.delete ''order'' kvs) ''sort'' = map_of kvs ''sort''"
    by (simp add: delete_conv')
  have del2: "map_of (AList.delete ''order'' kvs) ''order'' = None"
    by (simp add: delete_conv')
  have 1: "truthy ord \<Longrightarrow> buildSortOptions dflt (JObj kvs) =
         map_sum id (\<lambda>s. (s, JObj (AList.delete ''order'' kvs))) (buildOrder ord)"
    using assms(1) unfolding buildSortOptions_def
    by (cases "buildOrder ord") (simp_all del: buildOrder.simps getField.simps)
  have 2: "\<not> truthy ord \<Longrightarrow> truthy srt \<Longrightarrow>
       buildSortOptions dflt (JObj kvs) = map_sum id (\<lambda>s. (s, JObj kvs)) (buildOrder srt)"
    using assms unfolding buildSortOptions_def
    by (simp del: buildOrder.simps getField.simps)
  have 3: "\<not> truthy ord \<Longrightarrow> \<not> truthy srt \<Longrightarrow> truthy dflt \<Longrightarrow>
       buildSortOptions dflt (JObj kvs) = map_sum id (\<lambda>s. (s, JObj kvs)) (buildOrder dflt)"
    using assms unfolding buildSortOptions_def
    by (simp del: buildOrder.simps getField.simps)
  have 4: "\<not> truthy ord \<Longrightarrow> \<not> truthy srt \<Longrightarrow> \<not> truthy dflt \<Longrightarrow>
       buildSortOptions dflt (JObj kvs) = Inr (JNull, JObj kvs)"
    using assms unfolding buildSortOptions_def
    by (simp del: buildOrder.simps getField.simps)
  have 5: "getField (JObj (AList.delete ''order'' kvs)) ''order'' = Inr JUndefined"
    by (simp add: del2)
  have 6: "getField (JObj (AList.delete ''order'' kvs)) ''sort'' = Inr srt"
    using assms(2) by (simp add: del)
  show ?thesis using 1 2 3 4 5 6 7 by blast
qed


text \<open>One options object for each of the four cases.\<close>

theorem buildSortOptions_precedence_witness:
  "buildSortOptions (JStr ''x'') (JObj [(''order'', JStr ''-age''), (''sort'', JStr ''name'')]) =
     Inr (JObj [(''age'', JNum (- 1))], JObj [(''sort'', JStr ''name'')]) \<and>
   buildSortOptions (JStr ''x'') (JObj [(''sort'', JStr ''name'')]) =
     Inr (JObj [(''name'', JNum 1)], JObj [(''sort'', JStr ''name'')]) \<and>
   buildSortOptions (JStr ''x'') (JObj []) = Inr (JObj [(''x'', JNum 1)], JObj []) \<and>
   buildSortOptions JUndefined (JObj []) = Inr (JNull, JObj []) \<and>
   buildSortOptions JUndefined JNull = Inr (JNull, JObj [])"
  using buildSortOptions_precedence
          [of "[(''order'', JStr ''-age''), (''sort'', JStr ''name'')]" "JStr ''-age''" "JStr ''name''"
              "JStr ''x''" JNull]
        buildSortOptions_precedence [of "[(''sort'', JStr ''name'')]" JUndefined "JStr ''name''" "JStr ''x''" JNull]
        buildSortOptions_precedence [of "[]" JUndefined JUndefined "JStr ''x''" JNull]
        buildSortOptions_precedence [of "[]" JUndefined JUndefined JUndefined JNull]
  by (simp add: trim_name trim_age trim_x)

section \<open>DocumentAdapter: properties\<close>

lemma fst_andThen [simp]: "fst (andThen r f) = fst r"
  by (simp add: andThen_def split: outcome.splits)

lemma snd_andThen_Resolved:
  "snd r = Resolved v \<Longrightarrow> snd (andThen r f) = (case f v of Inl e \<Rightarrow> Rejected e | Inr w \<Rightarrow> Resolved w)"
  by (simp add: andThen_def)

lemma fst_query:
  "fst (query env coll f args) =
     (if f \<noteq> [] \<and> connectErr env = None then [Call coll f args] else [])"
  by (simp add: query_def split: option.splits)

lemma snd_query_Ok:
  "f \<noteq> [] \<Longrightarrow> connectErr env = None \<Longrightarrow> respond env (Call coll f args) = Ok result \<Longrightarrow>
     snd (query env coll f args) = Resolved result"
  by (simp add: query_def)

lemma sync_assert:
  "sync (hoek_assert b msg r) = (if b then sync r else ([], Threw (GuardViolation msg)))"
  by (simp add: sync_def hoek_assert_def)

lemma sync_Inr: "sync (Inr r) = r"
  by (simp add: sync_def)

lemma sync_bindE:
  "sync (bindE m f) = (case m of Inl e \<Rightarrow> ([], Threw e) | Inr v \<Rightarrow> sync (f v))"
  by (simp add: sync_def bindE_def split: sum.splits)

lemma fst_sync_assert [simp]:
  "fst (sync (hoek_assert b msg r)) = (if b then fst (sync r) else [])"
  by (simp add: sync_def hoek_assert_def)

lemma fst_sync_Inr [simp]: "fst (sync (Inr r)) = fst r"
  by (simp add: sync_def)

lemma fst_sync_bindE:
  "fst (sync (bindE m f)) = (case m of Inl e \<Rightarrow> [] | Inr v \<Rightarrow> fst (sync (f v)))"
  by (simp add: sync_def bindE_def split: sum.splits)

lemmas fixture_defs = sampleEnv_def sampleSchema_def namedSchema_def sampleAdapter_def failingEnv_def
  fieldsOf_def emptyValue_def simpleObject_def sampleEnvelope_def sampleDocs_def envAnswering_def
  driverObjectID_def isHexDigit_def

text \<open>
  Claim C3. Every store command that \<open>upsertOne\<close> issues is an \<open>updateOne\<close> with the
  upsert flag whose second argument is the upsert document of the model and whose first
  argument, the match predicate, is the \<open>$setOnInsert\<close> member of that same document;
  and when the connection is up and both guards pass, that command is issued.
\<close>

theorem upsertOne_predicate_is_onInsert:
  assumes "doc = toUpsertObject sch (applyBeforeSave sch True (construct sch model))"
  shows "(\<forall>c \<in> set (fst (upsertOne env sch model)).
            \<exists>p. c = Call (collectionName sch) ''updateOne'' [p, doc, JObj [(''upsert'', JBool True)]] \<and>
                getField doc ''$setOnInsert'' = Inr p) \<and>
         (connectErr env = None \<and> getField doc ''$setOnInsert'' = Inr q \<and>
            \<not> isEmpty env q \<and> \<not> isEmpty env doc \<longrightarrow>
          fst (upsertOne env sch model) =
            [Call (collectionName sch) ''updateOne'' [q, doc, JObj [(''upsert'', JBool True)]]])"
  using assms
  by (cases "getField doc ''$setOnInsert''")
     (simp_all add: upsertOne_def Let_def fst_sync_bindE fst_query del: getField.simps)

text \<open>
  A model with the key \<open>userId\<close>: the command is issued, and its predicate is the
  on-insert part of the document it writes.
\<close>

theorem upsertOne_predicate_is_onInsert_witness:
  "connectErr sampleEnv = None \<and>
   getField (toUpsertObject sampleSchema (applyBeforeSave sampleSchema True
      (construct sampleSchema (JObj [(''userId'', JStr ''u1'')])))) ''$setOnInsert'' =
     Inr (JObj [(''userId'', JStr ''u1'')]) \<and>
   \<not> isEmpty sampleEnv (JObj [(''userId'', JStr ''u1'')]) \<and>
   fst (upsertOne sampleEnv sampleSchema (JObj [(''userId'', JStr ''u1'')])) =
     [Call ''activity'' ''updateOne''
        [JObj [(''userId'', JStr ''u1'')],
         JObj [(''$setOnInsert'', JObj [(''userId'', JStr ''u1'')]), (''$set'', JObj [(''userId'', JStr ''u1'')])],
         JObj [(''upsert'', JBool True)]]]"
proof -
  let ?doc = "JObj [(''$setOnInsert'', JObj [(''userId'', JStr ''u1'')]), (''$set'', JObj [(''userId'', JStr ''u1'')])]"
  let ?q = "JObj [(''userId'', JStr ''u1'')]"
  have d: "?doc = toUpsertObject sampleSchema (applyBeforeSave sampleSchema True
      (construct sampleSchema (JObj [(''userId'', JStr ''u1'')])))"
    by (simp add: fixture_defs applyBeforeSave_def)
  have h: "connectErr sampleEnv = None \<and> getField ?doc ''$setOnInsert'' = Inr ?q \<and>
            \<not> isEmpty sampleEnv ?q \<and> \<not> isEmpty sampleEnv ?doc"
    by (simp add: fixture_defs)
  have n: "collectionName sampleSchema = ''activity''"
    by (simp add: fixture_defs)
  from upsertOne_predicate_is_onInsert [OF d, of sampleEnv ?q] h
  have "fst (upsertOne sampleEnv sampleSchema (JObj [(''userId'', JStr ''u1'')])) =
            [Call (collectionName sampleSchema) ''updateOne'' [?q, ?doc, JObj [(''upsert'', JBool True)]]]"
    by blast
  with h d n show ?thesis by (simp del: getField.simps)
qed

text \<open>
  The override of the activity adapter sends the same pair: the predicate of its
  \<open>updateOne\<close> is the \<open>$setOnInsert\<close> member of the document it writes.
\<close>

lemma issued_updateOne_activity:
  "c \<in> set (issued (upsertOneActivity env ad model)) \<Longrightarrow> c = Call coll ''updateOne'' args \<Longrightarrow>
     \<exists>p d. args = [p, d, JObj [(''upsert'', JBool True)]] \<and> getField d ''$setOnInsert'' = Inr p"
  by (auto simp: upsertOneActivity_def Let_def fst_query split: option.splits sum.splits reply.splits if_splits
           simp del: getField.simps)

text \<open>
  Claim C4, as the code has it. When the store answers the command of
  \<open>getOneAndUpdate\<close> or \<open>getOneAndUpsert\<close> with an envelope, the call resolves to
  \<open>null\<close> if the envelope's \<open>ok\<close> is falsy and to the envelope's \<open>value\<close>
  otherwise. The value can itself be \<open>null\<close>. Both calls send that command when the
  connection is up and both guards pass (for \<open>getOneAndUpsert\<close>, when the options are
  an object, which then carries \<open>upsert: true\<close>).
\<close>

theorem getOneAnd_unwraps_envelope:
  assumes "respond env c = Ok result"
    and "getField result ''ok'' = Inr ok" and "getField result ''value'' = Inr v"
  shows "(c \<in> set (fst (getOneAndUpdate env sch form qry opts)) \<longrightarrow>
            snd (getOneAndUpdate env sch form qry opts) = Resolved (if truthy ok then v else JNull)) \<and>
         (c \<in> set (fst (getOneAndUpsert env sch form qry opts)) \<longrightarrow>
            snd (getOneAndUpsert env sch form qry opts) = Resolved (if truthy ok then v else JNull)) \<and>
         (connectErr env = None \<and>
          \<not> isEmpty env (queryObjectOf env sch (construct sch form) qry) \<and>
          \<not> isEmpty env (toFormObject sch (applyBeforeSave sch False (construct sch form))) \<longrightarrow>
            fst (getOneAndUpdate env sch form qry opts) =
              [Call (collectionName sch) ''findOneAndUpdate''
                 [queryObjectOf env sch (construct sch form) qry,
                  JObj [(''$set'', toFormObject sch (applyBeforeSave sch False (construct sch form)))],
                  opts]]) \<and>
         (connectErr env = None \<and>
          \<not> isEmpty env (queryObjectOf env sch (construct sch form) qry) \<and>
          \<not> isEmpty env (toUpsertObject sch (applyBeforeSave sch False (construct sch form))) \<and>
          setField opts ''upsert'' (JBool True) = Inr uopts \<longrightarrow>
            fst (getOneAndUpsert env sch form qry opts) =
              [Call (collectionName sch) ''findOneAndUpdate''
                 [queryObjectOf env sch (construct sch form) qry,
                  toUpsertObject sch (applyBeforeSave sch False (construct sch form)),
                  uopts]])"
proof -
  have s1: "connectErr env = None \<and>
          \<not> isEmpty env (queryObjectOf env sch (construct sch form) qry) \<and>
          \<not> isEmpty env (toFormObject sch (applyBeforeSave sch False (construct sch form))) \<longrightarrow>
            fst (getOneAndUpdate env sch form qry opts) =
              [Call (collectionName sch) ''findOneAndUpdate''
                 [queryObjectOf env sch (construct sch form) qry,
                  JObj [(''$set'', toFormObject sch (applyBeforeSave sch False (construct sch form)))],
                  opts]]"
    by (simp add: getOneAndUpdate_def Let_def fst_query)
  have s2: "connectErr env = None \<and>
          \<not> isEmpty env (queryObjectOf env sch (construct sch form) qry) \<and>
          \<not> isEmpty env (toUpsertObject sch (applyBeforeSave sch False (construct sch form))) \<and>
          setField opts ''upsert'' (JBool True) = Inr uopts \<longrightarrow>
            fst (getOneAndUpsert env sch form qry opts) =
              [Call (collectionName sch) ''findOneAndUpdate''
                 [queryObjectOf env sch (construct sch form) qry,
                  toUpsertObject sch (applyBeforeSave sch False (construct sch form)),
                  uopts]]"
    by (simp add: getOneAndUpsert_def Let_def fst_sync_bindE fst_query)
  have u: "unwrapEnvelope result = Inr (if truthy ok then v else JNull)"
    using assms(2,3) by (simp add: unwrapEnvelope_def bindE_def del: getField.simps)
  have q: "snd (andThen (query env coll f args) unwrapEnvelope) = Resolved (if truthy ok then v else JNull)"
    if "c \<in> set (fst (query env coll f args))" for coll f args
  proof -
    from that have "f \<noteq> []" "connectErr env = None" "c = Call coll f args"
      by (auto simp: fst_query split: if_splits)
    with assms(1) have "snd (query env coll f args) = Resolved result"
      by (simp add: snd_query_Ok)
    then show ?thesis by (simp add: snd_andThen_Resolved u)
  qed
  have a: "snd (getOneAndUpdate env sch form qry opts) = Resolved (if truthy ok then v else JNull)"
    if "c \<in> set (fst (getOneAndUpdate env sch form qry opts))"
    using that q [of "collectionName sch" "''findOneAndUpdate''"]
    by (simp add: getOneAndUpdate_def Let_def sync_assert sync_Inr split: if_splits)
  have b: "snd (getOneAndUpsert env sch form qry opts) = Resolved (if truthy ok then v else JNull)"
    if "c \<in> set (fst (getOneAndUpsert env sch form qry opts))"
    using that q [of "collectionName sch" "''findOneAndUpdate''"]
    by (cases "setField opts ''upsert'' (JBool True)")
       (simp_all add: getOneAndUpsert_def Let_def sync_assert sync_Inr sync_bindE split: if_splits)
  have a': "c \<in> set (fst (getOneAndUpdate env sch form qry opts)) \<longrightarrow>
            snd (getOneAndUpdate env sch form qry opts) = Resolved (if truthy ok then v else JNull)"
    using a by (rule impI)
  have b': "c \<in> set (fst (getOneAndUpsert env sch form qry opts)) \<longrightarrow>
            snd (getOneAndUpsert env sch form qry opts) = Resolved (if truthy ok then v else JNull)"
    using b by (rule impI)
  show ?thesis by (rule conjI [OF a' conjI [OF b' conjI [OF s1 s2]]])
qed

text \<open>
  An envelope with \<open>ok: 1\<close> resolves to its value, one with \<open>ok: 0\<close> to
  \<open>null\<close>; \<open>getOneAndUpsert\<close> with the options \<open>{}\<close> sends its command with
  \<open>upsert: true\<close> and resolves to the value.
\<close>

theorem getOneAnd_unwraps_envelope_witness:
  "respond (envAnswering (JObj [(''ok'', JNum 1), (''value'', JStr ''doc'')]))
      (Call ''activity'' ''findOneAndUpdate''
         [JObj [(''userId'', JStr ''u1'')], JObj [(''$set'', JObj [(''name'', JStr ''ann'')])], JUndefined]) =
     Ok (JObj [(''ok'', JNum 1), (''value'', JStr ''doc'')]) \<and>
   fst (getOneAndUpdate (envAnswering (JObj [(''ok'', JNum 1), (''value'', JStr ''doc'')])) sampleSchema
          (JObj [(''name'', JStr ''ann'')]) (JObj [(''userId'', JStr ''u1'')]) JUndefined) =
     [Call ''activity'' ''findOneAndUpdate''
         [JObj [(''userId'', JStr ''u1'')], JObj [(''$set'', JObj [(''name'', JStr ''ann'')])], JUndefined]] \<and>
   snd (getOneAndUpdate (envAnswering (JObj [(''ok'', JNum 1), (''value'', JStr ''doc'')])) sampleSchema
          (JObj [(''name'', JStr ''ann'')]) (JObj [(''userId'', JStr ''u1'')]) JUndefined) =
     Resolved (JStr ''doc'') \<and>
   snd (getOneAndUpdate (envAnswering (JObj [(''ok'', JNum 0), (''value'', JStr ''doc'')])) sampleSchema
          (JObj [(''name'', JStr ''ann'')]) (JObj [(''userId'', JStr ''u1'')]) JUndefined) =
     Resolved JNull \<and>
   getOneAndUpsert (envAnswering (JObj [(''ok'', JNum 1), (''value'', JStr ''doc'')])) sampleSchema
          (JObj [(''name'', JStr ''ann'')]) (JObj [(''userId'', JStr ''u1'')]) (JObj []) =
     ([Call ''activity'' ''findOneAndUpdate''
         [JObj [(''userId'', JStr ''u1'')],
          JObj [(''$setOnInsert'', JObj []), (''$set'', JObj [(''name'', JStr ''ann'')])],
          JObj [(''upsert'', JBool True)]]],
      Resolved (JStr ''doc''))"
proof -
  let ?e1 = "JObj [(''ok'', JNum 1), (''value'', JStr ''doc'')]"
  let ?F = "JObj [(''name'', JStr ''ann'')]" and ?Q = "JObj [(''userId'', JStr ''u1'')]"
  let ?u = "Call ''activity'' ''findOneAndUpdate''
         [?Q, JObj [(''$setOnInsert'', JObj []), (''$set'', ?F)], JObj [(''upsert'', JBool True)]]"
  have ru: "respond (envAnswering ?e1) ?u = Ok ?e1"
    by (simp add: fixture_defs)
  have hu: "connectErr (envAnswering ?e1) = None"
    "queryObjectOf (envAnswering ?e1) sampleSchema (construct sampleSchema ?F) ?Q = ?Q"
    "toUpsertObject sampleSchema (applyBeforeSave sampleSchema False (construct sampleSchema ?F)) =
       JObj [(''$setOnInsert'', JObj []), (''$set'', ?F)]"
    "\<not> isEmpty (envAnswering ?e1) ?Q"
    "\<not> isEmpty (envAnswering ?e1) (JObj [(''$setOnInsert'', JObj []), (''$set'', ?F)])"
    "setField (JObj []) ''upsert'' (JBool True) = Inr (JObj [(''upsert'', JBool True)])"
    "collectionName sampleSchema = ''activity''"
    by (simp_all add: fixture_defs queryObjectOf_def applyBeforeSave_def)
  note tu = getOneAnd_unwraps_envelope [OF ru, where ok = "JNum 1" and v = "JStr ''doc''"
      and sch = sampleSchema and form = ?F and qry = ?Q and opts = "JObj []"
      and uopts = "JObj [(''upsert'', JBool True)]"]
  from tu [THEN conjunct2, THEN conjunct2, THEN conjunct2] hu
  have fu: "fst (getOneAndUpsert (envAnswering ?e1) sampleSchema ?F ?Q (JObj [])) = [?u]"
    by simp
  from tu [THEN conjunct2, THEN conjunct1] fu
  have su: "snd (getOneAndUpsert (envAnswering ?e1) sampleSchema ?F ?Q (JObj [])) = Resolved (JStr ''doc'')"
    by simp
  from fu su have 3: "getOneAndUpsert (envAnswering ?e1) sampleSchema ?F ?Q (JObj []) =
     ([?u], Resolved (JStr ''doc''))"
    by (simp add: prod_eq_iff)
  let ?c = "Call ''activity'' ''findOneAndUpdate''
         [JObj [(''userId'', JStr ''u1'')], JObj [(''$set'', JObj [(''name'', JStr ''ann'')])], JUndefined]"
  let ?run = "\<lambda>e. getOneAndUpdate (envAnswering e) sampleSchema
          (JObj [(''name'', JStr ''ann'')]) (JObj [(''userId'', JStr ''u1'')]) JUndefined"
  have r: "respond (envAnswering e) ?c = Ok e" for e
    by (simp add: fixture_defs)
  have f: "fst (?run e) = [?c]" for e
    by (simp add: getOneAndUpdate_def fixture_defs applyBeforeSave_def queryObjectOf_def Let_def
          fst_query)
  have m: "?c \<in> set (fst (?run e))" for e
    by (simp add: f)
  from getOneAnd_unwraps_envelope [OF r, of "JObj [(''ok'', JNum 1), (''value'', JStr ''doc'')]" "JNum 1" "JStr ''doc''"]
    m
  have 1: "snd (?run (JObj [(''ok'', JNum 1), (''value'', JStr ''doc'')])) = Resolved (JStr ''doc'')"
    by simp
  from getOneAnd_unwraps_envelope [OF r, of "JObj [(''ok'', JNum 0), (''value'', JStr ''doc'')]" "JNum 0" "JStr ''doc''"]
    m
  have 2: "snd (?run (JObj [(''ok'', JNum 0), (''value'', JStr ''doc'')])) = Resolved JNull"
    by simp
  show ?thesis using r f 1 2 3 by simp
qed

text \<open>
  Claim C4 as stated fails: the envelope \<open>{ok: true, value: null}\<close>, the store's
  answer when no document matches, resolves to \<open>null\<close> although \<open>ok\<close> is not
  false.
\<close>

theorem getOneAnd_null_with_ok_counterexample:
  "fst (getOneAndUpdate (envAnswering (JObj [(''ok'', JBool True), (''value'', JNull)])) sampleSchema
          (JObj [(''name'', JStr ''ann'')]) (JObj [(''userId'', JStr ''u1'')]) JUndefined) =
     [Call ''activity'' ''findOneAndUpdate''
         [JObj [(''userId'', JStr ''u1'')], JObj [(''$set'', JObj [(''name'', JStr ''ann'')])], JUndefined]] \<and>
   respond (envAnswering (JObj [(''ok'', JBool True), (''value'', JNull)]))
      (Call ''activity'' ''findOneAndUpdate''
         [JObj [(''userId'', JStr ''u1'')], JObj [(''$set'', JObj [(''name'', JStr ''ann'')])], JUndefined]) =
     Ok (JObj [(''ok'', JBool True), (''value'', JNull)]) \<and>
   snd (getOneAndUpdate (envAnswering (JObj [(''ok'', JBool True), (''value'', JNull)])) sampleSchema
          (JObj [(''name'', JStr ''ann'')]) (JObj [(''userId'', JStr ''u1'')]) JUndefined) =
     Resolved JNull"
  by (simp add: getOneAndUpdate_def fixture_defs applyBeforeSave_def queryObjectOf_def Let_def
        sync_assert sync_Inr query_def andThen_def unwrapEnvelope_def bindE_def)

text \<open>
  Claim C10. For a form without a truthy identifier whose resolved predicate is empty,
  \<open>getOne\<close> (options permitting) issues one \<open>findOne\<close> with that empty predicate
  and resolves with the store's result; \<open>getOneSimple\<close> on a form whose simple
  object is empty throws the guard's error and issues nothing.
\<close>

theorem getOne_has_no_guard:
  assumes "connectErr env = None"
    and "getField form ''_id'' = Inr ident" and "\<not> truthy ident"
    and "params = queryObjectOf env sch (construct sch JUndefined) form"
    and "isEmpty env params"
    and "buildFindOptions (defaultOrder sch) opts0 = Inr opts"
  shows "fst (getOne env sch form opts0) = [Call (collectionName sch) ''findOne'' [params, opts]] \<and>
         (respond env (Call (collectionName sch) ''findOne'' [params, opts]) = Ok result \<longrightarrow>
            snd (getOne env sch form opts0) = Resolved result) \<and>
         (isEmpty env (toSimpleObject env form) \<longrightarrow>
            getOneSimple env sch form = ([], Threw (GuardViolation ''Params must not be empty'')))"
proof -
  have p: "paramsOf env sch (construct sch JUndefined) form = Inr params"
    using assms(2,3,4) by (simp add: paramsOf_def bindE_def del: getField.simps)
  have g: "getOne env sch form opts0 =
             andThen (query env (collectionName sch) ''findOne'' [params, opts]) Inr"
    using p assms(6) by (simp add: getOne_def Let_def sync_bindE sync_Inr)
  have 1: "fst (getOne env sch form opts0) = [Call (collectionName sch) ''findOne'' [params, opts]]"
    using assms(1) by (simp add: g fst_query)
  have 2: "snd (getOne env sch form opts0) = Resolved result"
    if "respond env (Call (collectionName sch) ''findOne'' [params, opts]) = Ok result"
    using that assms(1) by (simp add: g snd_andThen_Resolved snd_query_Ok)
  have 3: "getOneSimple env sch form = ([], Threw (GuardViolation ''Params must not be empty''))"
    if "isEmpty env (toSimpleObject env form)"
    using that by (simp add: getOneSimple_def Let_def sync_assert)
  show ?thesis using 1 2 3 by blast
qed

text \<open>
  The form \<open>{name: null}\<close> resolves to the empty predicate: \<open>getOne\<close> reaches the
  store, \<open>getOneSimple\<close> throws.
\<close>

theorem getOne_has_no_guard_witness:
  "connectErr sampleEnv = None \<and> getField (JObj [(''name'', JNull)]) ''_id'' = Inr JUndefined \<and>
   \<not> truthy JUndefined \<and>
   queryObjectOf sampleEnv sampleSchema (construct sampleSchema JUndefined) (JObj [(''name'', JNull)]) = JObj [] \<and>
   isEmpty sampleEnv (JObj []) \<and>
   buildFindOptions (defaultOrder sampleSchema) JUndefined = Inr (JObj [(''sort'', JNull)]) \<and>
   getOne sampleEnv sampleSchema (JObj [(''name'', JNull)]) JUndefined =
     ([Call ''activity'' ''findOne'' [JObj [], JObj [(''sort'', JNull)]]], Resolved sampleEnvelope) \<and>
   getOneSimple sampleEnv sampleSchema (JObj [(''name'', JNull)]) =
     ([], Threw (GuardViolation ''Params must not be empty''))"
proof -
  let ?form = "JObj [(''name'', JNull)]"
  have a: "connectErr sampleEnv = None" by (simp add: fixture_defs)
  have b: "getField ?form ''_id'' = Inr JUndefined" by simp
  have c: "\<not> truthy JUndefined" by simp
  have d: "JObj [] = queryObjectOf sampleEnv sampleSchema (construct sampleSchema JUndefined) ?form"
    by (simp add: fixture_defs queryObjectOf_def)
  have e: "isEmpty sampleEnv (JObj [])" by (simp add: fixture_defs)
  have f: "buildFindOptions (defaultOrder sampleSchema) JUndefined = Inr (JObj [(''sort'', JNull)])"
    by (simp add: fixture_defs buildFindOptions_def buildSortOptions_def)
  have g: "collectionName sampleSchema = ''activity''" "respond sampleEnv x = Ok sampleEnvelope"
    "isEmpty sampleEnv (toSimpleObject sampleEnv ?form)" for x
    by (simp_all add: fixture_defs)
  from getOne_has_no_guard [OF a b c d e f, of sampleEnvelope] g
  have "fst (getOne sampleEnv sampleSchema ?form JUndefined) =
          [Call ''activity'' ''findOne'' [JObj [], JObj [(''sort'', JNull)]]] \<and>
        snd (getOne sampleEnv sampleSchema ?form JUndefined) = Resolved sampleEnvelope \<and>
        getOneSimple sampleEnv sampleSchema ?form = ([], Threw (GuardViolation ''Params must not be empty''))"
    by simp
  then have "getOne sampleEnv sampleSchema ?form JUndefined =
     ([Call ''activity'' ''findOne'' [JObj [], JObj [(''sort'', JNull)]]], Resolved sampleEnvelope) \<and>
     getOneSimple sampleEnv sampleSchema ?form = ([], Threw (GuardViolation ''Params must not be empty''))"
    by (simp add: prod_eq_iff)
  with a b c d [symmetric] e f show ?thesis by (simp del: getField.simps)
qed

lemma fst_exists:
  "fst (exists env sch form) =
     (case connectErr env of Some e \<Rightarrow> []
      | None \<Rightarrow> (case paramsOf env sch (construct sch JUndefined) form of Inl e \<Rightarrow> []
          | Inr params \<Rightarrow> if isEmpty env params then []
              else [Call (collectionName sch) ''find.limit.count'' [params, JNum 1]]))"
  by (simp add: exists_def Let_def bindE_def hoek_assert_def split: option.splits sum.splits)

lemma predicateOf_Call [simp]: "predicateOf (Call coll f (p # rest)) = p"
  by (simp add: predicateOf_def)

lemma paramsOf_identity:
  "getField form ''_id'' = Inr ident \<Longrightarrow> truthy ident \<Longrightarrow>
     paramsOf env sch m form = bindE (ObjectID env ident) (\<lambda>oid. Inr (JObj [(''_id'', oid)]))"
  by (simp add: paramsOf_def bindE_def del: getField.simps)

lemma paramsOf_projection:
  "getField form ''_id'' = Inr ident \<Longrightarrow> \<not> truthy ident \<Longrightarrow>
     paramsOf env sch m form = Inr (queryObjectOf env sch m form)"
  by (simp add: paramsOf_def bindE_def del: getField.simps)

lemma getOne_sends:
  "paramsOf env sch (construct sch JUndefined) form = Inr p \<Longrightarrow>
   buildFindOptions (defaultOrder sch) opts = Inr fo \<Longrightarrow> connectErr env = None \<Longrightarrow>
     fst (getOne env sch form opts) = [Call (collectionName sch) ''findOne'' [p, fo]]"
  by (simp add: getOne_def Let_def fst_sync_bindE fst_query)

lemma exists_sends:
  "paramsOf env sch (construct sch JUndefined) form = Inr p \<Longrightarrow>
   \<not> isEmpty env p \<Longrightarrow> connectErr env = None \<Longrightarrow>
     fst (exists env sch form) = [Call (collectionName sch) ''find.limit.count'' [p, JNum 1]]"
  by (simp add: fst_exists)

lemma deleteOne_sends:
  "paramsOf env sch (construct sch JUndefined) form = Inr p \<Longrightarrow>
   \<not> isEmpty env p \<Longrightarrow> connectErr env = None \<Longrightarrow>
     fst (deleteOne env sch form) = [Call (collectionName sch) ''deleteOne'' [p]]"
  by (simp add: deleteOne_def Let_def fst_sync_bindE fst_query)

lemma identity_throws:
  "paramsOf env sch (construct sch JUndefined) form = Inl e \<Longrightarrow>
     getOne env sch form opts = ([], Threw e) \<and> deleteOne env sch form = ([], Threw e) \<and>
     (connectErr env = None \<longrightarrow> exists env sch form = ([], Pending))"
  by (simp add: getOne_def deleteOne_def exists_def Let_def sync_def bindE_def)

lemma update_sends:
  "connectErr env = None \<Longrightarrow>
   \<not> isEmpty env (queryObjectOf env sch (construct sch model) form) \<Longrightarrow>
   \<not> isEmpty env (toFormObject sch (applyBeforeSave sch False (construct sch model))) \<Longrightarrow>
     fst (updateOne env sch model form) =
       [Call (collectionName sch) ''updateOne''
          [queryObjectOf env sch (construct sch model) form,
           JObj [(''$set'', toFormObject sch (applyBeforeSave sch False (construct sch model)))]]] \<and>
     fst (updateMany env sch model form) =
       [Call (collectionName sch) ''updateMany''
          [queryObjectOf env sch (construct sch model) form,
           JObj [(''$set'', toFormObject sch (applyBeforeSave sch False (construct sch model)))]]] \<and>
     fst (getOneAndUpdate env sch model form opts) =
       [Call (collectionName sch) ''findOneAndUpdate''
          [queryObjectOf env sch (construct sch model) form,
           JObj [(''$set'', toFormObject sch (applyBeforeSave sch False (construct sch model)))], opts]]"
  by (simp add: updateOne_def updateMany_def getOneAndUpdate_def Let_def fst_query)

text \<open>
  Claim C2, as the code has it. In \<open>getOne\<close>, \<open>exists\<close> and \<open>deleteOne\<close> a form
  with a truthy \<open>_id\<close> that \<open>ObjectID\<close> accepts gives the predicate
  \<open>{_id: ObjectID(form._id)}\<close>, whatever the schema's \<open>toQueryObject\<close>: the command
  is sent with that predicate when the connection is up and, for \<open>getOne\<close>, the find
  options can be built, for \<open>exists\<close> and \<open>deleteOne\<close>, the guard passes; no command
  with another predicate is ever sent. When \<open>ObjectID\<close> throws on the truthy \<open>_id\<close>,
  \<open>getOne\<close> and \<open>deleteOne\<close> throw its error and \<open>exists\<close> stays pending, and
  nothing is sent. Without a truthy \<open>_id\<close> the same holds with the schema's query
  projection, or the simple object when the schema has none, as predicate.
  \<open>updateOne\<close>, \<open>updateMany\<close> and \<open>getOneAndUpdate\<close> never look at \<open>_id\<close>: their
  predicate is always the query projection or the simple object of the query argument,
  and they send it when the connection is up and both guards pass.
\<close>

theorem identity_resolution:
  assumes "getField form ''_id'' = Inr ident"
  shows
   "(truthy ident \<and> ObjectID env ident = Inr oid \<longrightarrow>
       (\<forall>c \<in> set (fst (getOne env sch form opts)). predicateOf c = JObj [(''_id'', oid)]) \<and>
       (\<forall>c \<in> set (fst (exists env sch form)). predicateOf c = JObj [(''_id'', oid)]) \<and>
       (\<forall>c \<in> set (fst (deleteOne env sch form)). predicateOf c = JObj [(''_id'', oid)]) \<and>
       (connectErr env = None \<and> buildFindOptions (defaultOrder sch) opts = Inr fo \<longrightarrow>
          fst (getOne env sch form opts) =
            [Call (collectionName sch) ''findOne'' [JObj [(''_id'', oid)], fo]]) \<and>
       (connectErr env = None \<and> \<not> isEmpty env (JObj [(''_id'', oid)]) \<longrightarrow>
          fst (exists env sch form) =
            [Call (collectionName sch) ''find.limit.count'' [JObj [(''_id'', oid)], JNum 1]] \<and>
          fst (deleteOne env sch form) =
            [Call (collectionName sch) ''deleteOne'' [JObj [(''_id'', oid)]]])) \<and>
    (truthy ident \<and> ObjectID env ident = Inl e \<longrightarrow>
       getOne env sch form opts = ([], Threw e) \<and> deleteOne env sch form = ([], Threw e) \<and>
       (connectErr env = None \<longrightarrow> exists env sch form = ([], Pending))) \<and>
    (\<not> truthy ident \<longrightarrow>
       (\<forall>c \<in> set (fst (getOne env sch form opts)).
          predicateOf c = queryObjectOf env sch (construct sch JUndefined) form) \<and>
       (\<forall>c \<in> set (fst (exists env sch form)).
          predicateOf c = queryObjectOf env sch (construct sch JUndefined) form) \<and>
       (\<forall>c \<in> set (fst (deleteOne env sch form)).
          predicateOf c = queryObjectOf env sch (construct sch JUndefined) form) \<and>
       (connectErr env = None \<and> buildFindOptions (defaultOrder sch) opts = Inr fo \<longrightarrow>
          fst (getOne env sch form opts) =
            [Call (collectionName sch) ''findOne''
               [queryObjectOf env sch (construct sch JUndefined) form, fo]]) \<and>
       (connectErr env = None \<and>
        \<not> isEmpty env (queryObjectOf env sch (construct sch JUndefined) form) \<longrightarrow>
          fst (exists env sch form) =
            [Call (collectionName sch) ''find.limit.count''
               [queryObjectOf env sch (construct sch JUndefined) form, JNum 1]] \<and>
          fst (deleteOne env sch form) =
            [Call (collectionName sch) ''deleteOne''
               [queryObjectOf env sch (construct sch JUndefined) form]])) \<and>
    (\<forall>c \<in> set (fst (updateOne env sch model form)).
       predicateOf c = queryObjectOf env sch (construct sch model) form) \<and>
    (\<forall>c \<in> set (fst (updateMany env sch model form)).
       predicateOf c = queryObjectOf env sch (construct sch model) form) \<and>
    (\<forall>c \<in> set (fst (getOneAndUpdate env sch model form opts)).
       predicateOf c = queryObjectOf env sch (construct sch model) form) \<and>
    (connectErr env = None \<and>
     \<not> isEmpty env (queryObjectOf env sch (construct sch model) form) \<and>
     \<not> isEmpty env (toFormObject sch (applyBeforeSave sch False (construct sch model))) \<longrightarrow>
       fst (updateOne env sch model form) =
         [Call (collectionName sch) ''updateOne''
            [queryObjectOf env sch (construct sch model) form,
             JObj [(''$set'', toFormObject sch (applyBeforeSave sch False (construct sch model)))]]] \<and>
       fst (updateMany env sch model form) =
         [Call (collectionName sch) ''updateMany''
            [queryObjectOf env sch (construct sch model) form,
             JObj [(''$set'', toFormObject sch (applyBeforeSave sch False (construct sch model)))]]] \<and>
       fst (getOneAndUpdate env sch model form opts) =
         [Call (collectionName sch) ''findOneAndUpdate''
            [queryObjectOf env sch (construct sch model) form,
             JObj [(''$set'', toFormObject sch (applyBeforeSave sch False (construct sch model)))],
             opts]])"
proof -
  let ?m = "construct sch JUndefined"
  have p1: "paramsOf env sch ?m form = Inr (JObj [(''_id'', oid)])"
    if "truthy ident" "ObjectID env ident = Inr oid"
    using that assms by (simp add: paramsOf_identity bindE_def)
  have p2: "paramsOf env sch ?m form = Inr (queryObjectOf env sch ?m form)"
    if "\<not> truthy ident"
    using that assms by (simp add: paramsOf_projection)
  have p3: "paramsOf env sch ?m form = Inl e"
    if "truthy ident" "ObjectID env ident = Inl e"
    using that assms by (simp add: paramsOf_identity bindE_def)
  have g: "\<forall>c \<in> set (fst (getOne env sch form opts)). predicateOf c = p"
    if "paramsOf env sch ?m form = Inr p" for p
    using that
    by (cases "buildFindOptions (defaultOrder sch) opts")
       (simp_all add: getOne_def Let_def fst_sync_bindE fst_query)
  have x: "\<forall>c \<in> set (fst (exists env sch form)). predicateOf c = p"
    if "paramsOf env sch ?m form = Inr p" for p
    using that by (simp add: fst_exists split: option.splits)
  have d: "\<forall>c \<in> set (fst (deleteOne env sch form)). predicateOf c = p"
    if "paramsOf env sch ?m form = Inr p" for p
    using that by (simp add: deleteOne_def Let_def fst_sync_bindE fst_query)
  have u1: "\<forall>c \<in> set (fst (updateOne env sch model form)).
       predicateOf c = queryObjectOf env sch (construct sch model) form"
    by (simp add: updateOne_def Let_def fst_query)
  have u2: "\<forall>c \<in> set (fst (updateMany env sch model form)).
       predicateOf c = queryObjectOf env sch (construct sch model) form"
    by (simp add: updateMany_def Let_def fst_query)
  have u3: "\<forall>c \<in> set (fst (getOneAndUpdate env sch model form opts)).
       predicateOf c = queryObjectOf env sch (construct sch model) form"
    by (simp add: getOneAndUpdate_def Let_def fst_query)
  have A: "truthy ident \<and> ObjectID env ident = Inr oid \<longrightarrow>
       (\<forall>c \<in> set (fst (getOne env sch form opts)). predicateOf c = JObj [(''_id'', oid)]) \<and>
       (\<forall>c \<in> set (fst (exists env sch form)). predicateOf c = JObj [(''_id'', oid)]) \<and>
       (\<forall>c \<in> set (fst (deleteOne env sch form)). predicateOf c = JObj [(''_id'', oid)]) \<and>
       (connectErr env = None \<and> buildFindOptions (defaultOrder sch) opts = Inr fo \<longrightarrow>
          fst (getOne env sch form opts) =
            [Call (collectionName sch) ''findOne'' [JObj [(''_id'', oid)], fo]]) \<and>
       (connectErr env = None \<and> \<not> isEmpty env (JObj [(''_id'', oid)]) \<longrightarrow>
          fst (exists env sch form) =
            [Call (collectionName sch) ''find.limit.count'' [JObj [(''_id'', oid)], JNum 1]] \<and>
          fst (deleteOne env sch form) =
            [Call (collectionName sch) ''deleteOne'' [JObj [(''_id'', oid)]]])"
  proof (rule impI, elim conjE)
    assume t: "truthy ident" and o: "ObjectID env ident = Inr oid"
    note p = p1 [OF t o]
    show "(\<forall>c \<in> set (fst (getOne env sch form opts)). predicateOf c = JObj [(''_id'', oid)]) \<and>
       (\<forall>c \<in> set (fst (exists env sch form)). predicateOf c = JObj [(''_id'', oid)]) \<and>
       (\<forall>c \<in> set (fst (deleteOne env sch form)). predicateOf c = JObj [(''_id'', oid)]) \<and>
       (connectErr env = None \<and> buildFindOptions (defaultOrder sch) opts = Inr fo \<longrightarrow>
          fst (getOne env sch form opts) =
            [Call (collectionName sch) ''findOne'' [JObj [(''_id'', oid)], fo]]) \<and>
       (connectErr env = None \<and> \<not> isEmpty env (JObj [(''_id'', oid)]) \<longrightarrow>
          fst (exists env sch form) =
            [Call (collectionName sch) ''find.limit.count'' [JObj [(''_id'', oid)], JNum 1]] \<and>
          fst (deleteOne env sch form) =
            [Call (collectionName sch) ''deleteOne'' [JObj [(''_id'', oid)]]])"
      by (intro conjI impI g [OF p] x [OF p] d [OF p]; elim conjE)
         (simp_all add: getOne_sends [OF p] exists_sends [OF p] deleteOne_sends [OF p])
  qed
  have B: "truthy ident \<and> ObjectID env ident = Inl e \<longrightarrow>
       getOne env sch form opts = ([], Threw e) \<and> deleteOne env sch form = ([], Threw e) \<and>
       (connectErr env = None \<longrightarrow> exists env sch form = ([], Pending))"
  proof (rule impI, elim conjE)
    assume t: "truthy ident" and o: "ObjectID env ident = Inl e"
    show "getOne env sch form opts = ([], Threw e) \<and> deleteOne env sch form = ([], Threw e) \<and>
       (connectErr env = None \<longrightarrow> exists env sch form = ([], Pending))"
      by (rule identity_throws [OF p3 [OF t o]])
  qed
  have C: "\<not> truthy ident \<longrightarrow>
       (\<forall>c \<in> set (fst (getOne env sch form opts)).
          predicateOf c = queryObjectOf env sch ?m form) \<and>
       (\<forall>c \<in> set (fst (exists env sch form)).
          predicateOf c = queryObjectOf env sch ?m form) \<and>
       (\<forall>c \<in> set (fst (deleteOne env sch form)).
          predicateOf c = queryObjectOf env sch ?m form) \<and>
       (connectErr env = None \<and> buildFindOptions (defaultOrder sch) opts = Inr fo \<longrightarrow>
          fst (getOne env sch form opts) =
            [Call (collectionName sch) ''findOne'' [queryObjectOf env sch ?m form, fo]]) \<and>
       (connectErr env = None \<and> \<not> isEmpty env (queryObjectOf env sch ?m form) \<longrightarrow>
          fst (exists env sch form) =
            [Call (collectionName sch) ''find.limit.count'' [queryObjectOf env sch ?m form, JNum 1]] \<and>
          fst (deleteOne env sch form) =
            [Call (collectionName sch) ''deleteOne'' [queryObjectOf env sch ?m form]])"
  proof (rule impI)
    assume t: "\<not> truthy ident"
    note p = p2 [OF t]
    show "(\<forall>c \<in> set (fst (getOne env sch form opts)).
          predicateOf c = queryObjectOf env sch ?m form) \<and>
       (\<forall>c \<in> set (fst (exists env sch form)).
          predicateOf c = queryObjectOf env sch ?m form) \<and>
       (\<forall>c \<in> set (fst (deleteOne env sch form)).
          predicateOf c = queryObjectOf env sch ?m form) \<and>
       (connectErr env = None \<and> buildFindOptions (defaultOrder sch) opts = Inr fo \<longrightarrow>
          fst (getOne env sch form opts) =
            [Call (collectionName sch) ''findOne'' [queryObjectOf env sch ?m form, fo]]) \<and>
       (connectErr env = None \<and> \<not> isEmpty env (queryObjectOf env sch ?m form) \<longrightarrow>
          fst (exists env sch form) =
            [Call (collectionName sch) ''find.limit.count'' [queryObjectOf env sch ?m form, JNum 1]] \<and>
          fst (deleteOne env sch form) =
            [Call (collectionName sch) ''deleteOne'' [queryObjectOf env sch ?m form]])"
      by (intro conjI impI g [OF p] x [OF p] d [OF p]; elim conjE)
         (simp_all add: getOne_sends [OF p] exists_sends [OF p] deleteOne_sends [OF p])
  qed
  have D: "connectErr env = None \<and>
     \<not> isEmpty env (queryObjectOf env sch (construct sch model) form) \<and>
     \<not> isEmpty env (toFormObject sch (applyBeforeSave sch False (construct sch model))) \<longrightarrow>
       fst (updateOne env sch model form) =
         [Call (collectionName sch) ''updateOne''
            [queryObjectOf env sch (construct sch model) form,
             JObj [(''$set'', toFormObject sch (applyBeforeSave sch False (construct sch model)))]]] \<and>
       fst (updateMany env sch model form) =
         [Call (collectionName sch) ''updateMany''
            [queryObjectOf env sch (construct sch model) form,
             JObj [(''$set'', toFormObject sch (applyBeforeSave sch False (construct sch model)))]]] \<and>
       fst (getOneAndUpdate env sch model form opts) =
         [Call (collectionName sch) ''findOneAndUpdate''
            [queryObjectOf env sch (construct sch model) form,
             JObj [(''$set'', toFormObject sch (applyBeforeSave sch False (construct sch model)))],
             opts]]"
    by (rule impI, elim conjE, rule update_sends)
  show ?thesis
    by (rule conjI [OF A conjI [OF B conjI [OF C conjI [OF u1 conjI [OF u2 conjI [OF u3 D]]]]]])
qed

lemma sample_oid:
  "ObjectID sampleEnv (JStr ''507f1f77bcf86cd799439011'') =
     Inr (JObj [(''$oid'', JStr ''507f1f77bcf86cd799439011'')])"
  "ObjectID sampleEnv (JStr ''5'') =
     Inl (UnexpectedError (JStr ''Argument passed in must be a single String''))"
  by (simp_all add: sampleEnv_def driverObjectID_def isHexDigit_def)

lemma sample_find_options:
  "buildFindOptions (defaultOrder namedSchema) JUndefined = Inr (JObj [(''sort'', JNull)])"
  by (simp add: fixture_defs buildFindOptions_def buildSortOptions_def)

text \<open>
  A schema with a query projection and a form whose \<open>_id\<close> is 24 hexadecimal digits:
  \<open>getOne\<close>, \<open>exists\<close> and \<open>deleteOne\<close> send the identifier predicate, \<open>updateOne\<close>
  sends the projection. The form without \<open>_id\<close> gives the projection in \<open>deleteOne\<close>,
  and the \<open>_id\<close> \<open>'5'\<close>, which \<open>ObjectID\<close> refuses, makes it throw.
\<close>

theorem identity_resolution_witness:
  "getField (JObj [(''_id'', JStr ''507f1f77bcf86cd799439011''), (''name'', JStr ''ann'')]) ''_id'' =
     Inr (JStr ''507f1f77bcf86cd799439011'') \<and>
   truthy (JStr ''507f1f77bcf86cd799439011'') \<and>
   ObjectID sampleEnv (JStr ''507f1f77bcf86cd799439011'') =
     Inr (JObj [(''$oid'', JStr ''507f1f77bcf86cd799439011'')]) \<and>
   fst (getOne sampleEnv namedSchema
          (JObj [(''_id'', JStr ''507f1f77bcf86cd799439011''), (''name'', JStr ''ann'')]) JUndefined) =
     [Call ''activity'' ''findOne''
        [JObj [(''_id'', JObj [(''$oid'', JStr ''507f1f77bcf86cd799439011'')])], JObj [(''sort'', JNull)]]] \<and>
   fst (exists sampleEnv namedSchema
          (JObj [(''_id'', JStr ''507f1f77bcf86cd799439011''), (''name'', JStr ''ann'')])) =
     [Call ''activity'' ''find.limit.count''
        [JObj [(''_id'', JObj [(''$oid'', JStr ''507f1f77bcf86cd799439011'')])], JNum 1]] \<and>
   fst (deleteOne sampleEnv namedSchema
          (JObj [(''_id'', JStr ''507f1f77bcf86cd799439011''), (''name'', JStr ''ann'')])) =
     [Call ''activity'' ''deleteOne'' [JObj [(''_id'', JObj [(''$oid'', JStr ''507f1f77bcf86cd799439011'')])]]] \<and>
   fst (updateOne sampleEnv namedSchema (JObj [(''name'', JStr ''bob'')])
          (JObj [(''_id'', JStr ''507f1f77bcf86cd799439011''), (''name'', JStr ''ann'')])) =
     [Call ''activity'' ''updateOne''
        [JObj [(''name'', JStr ''ann'')], JObj [(''$set'', JObj [(''name'', JStr ''bob'')])]]] \<and>
   getField (JObj [(''name'', JStr ''ann'')]) ''_id'' = Inr JUndefined \<and> \<not> truthy JUndefined \<and>
   fst (deleteOne sampleEnv namedSchema (JObj [(''name'', JStr ''ann'')])) =
     [Call ''activity'' ''deleteOne'' [JObj [(''name'', JStr ''ann'')]]] \<and>
   getField (JObj [(''_id'', JStr ''5'')]) ''_id'' = Inr (JStr ''5'') \<and> truthy (JStr ''5'') \<and>
   deleteOne sampleEnv namedSchema (JObj [(''_id'', JStr ''5'')]) =
     ([], Threw (UnexpectedError (JStr ''Argument passed in must be a single String'')))"
proof -
  let ?id = "JStr ''507f1f77bcf86cd799439011''"
  let ?oid = "JObj [(''$oid'', ?id)]"
  let ?form = "JObj [(''_id'', ?id), (''name'', JStr ''ann'')]"
  let ?plain = "JObj [(''name'', JStr ''ann'')]"
  let ?bad = "JObj [(''_id'', JStr ''5'')]"
  let ?model = "JObj [(''name'', JStr ''bob'')]"
  let ?fo = "JObj [(''sort'', JNull)]"
  let ?err = "UnexpectedError (JStr ''Argument passed in must be a single String'')"
  have a: "getField ?form ''_id'' = Inr ?id" by simp
  have b: "truthy ?id" by simp
  note c = sample_oid(1)
  have conn: "connectErr sampleEnv = None" by (simp add: sampleEnv_def)
  note fo = sample_find_options
  have ne: "\<not> isEmpty sampleEnv (JObj [(''_id'', ?oid)])"
    by (simp add: sampleEnv_def emptyValue_def)
  have nm: "collectionName namedSchema = ''activity''" by (simp add: fixture_defs)
  have q: "queryObjectOf sampleEnv namedSchema (construct namedSchema m) ?form = ?plain"
          "queryObjectOf sampleEnv namedSchema (construct namedSchema m) ?plain = ?plain" for m
    by (simp_all add: queryObjectOf_def fixture_defs)
  have doc: "toFormObject namedSchema (applyBeforeSave namedSchema False (construct namedSchema ?model)) = ?model"
    by (simp add: fixture_defs applyBeforeSave_def)
  have ne2: "\<not> isEmpty sampleEnv ?plain" "\<not> isEmpty sampleEnv ?model"
    by (simp_all add: sampleEnv_def emptyValue_def)
  note t = identity_resolution [OF a, where env = sampleEnv and oid = ?oid and sch = namedSchema
             and opts = JUndefined and fo = ?fo and model = ?model and e = ?err]
  from t [THEN conjunct1] b c conn fo ne
  have 1: "fst (getOne sampleEnv namedSchema ?form JUndefined) =
             [Call (collectionName namedSchema) ''findOne'' [JObj [(''_id'', ?oid)], ?fo]] \<and>
           fst (exists sampleEnv namedSchema ?form) =
             [Call (collectionName namedSchema) ''find.limit.count'' [JObj [(''_id'', ?oid)], JNum 1]] \<and>
           fst (deleteOne sampleEnv namedSchema ?form) =
             [Call (collectionName namedSchema) ''deleteOne'' [JObj [(''_id'', ?oid)]]]"
    by blast
  from t [THEN conjunct2, THEN conjunct2, THEN conjunct2, THEN conjunct2, THEN conjunct2, THEN conjunct2]
    conn q(1) doc ne2
  have 2: "fst (updateOne sampleEnv namedSchema ?model ?form) =
             [Call (collectionName namedSchema) ''updateOne'' [?plain, JObj [(''$set'', ?model)]]]"
    by simp
  have a': "getField ?plain ''_id'' = Inr JUndefined" by simp
  have b': "\<not> truthy JUndefined" by simp
  note t' = identity_resolution [OF a', where env = sampleEnv and sch = namedSchema
             and opts = JUndefined and fo = ?fo and model = ?model]
  from t' [THEN conjunct2, THEN conjunct2, THEN conjunct1] b' conn q(2) ne2(1)
  have 3: "fst (deleteOne sampleEnv namedSchema ?plain) =
             [Call (collectionName namedSchema) ''deleteOne'' [?plain]]"
    by simp
  have a'': "getField ?bad ''_id'' = Inr (JStr ''5'')" by simp
  have b'': "truthy (JStr ''5'')" by simp
  note t'' = identity_resolution [OF a'', where env = sampleEnv and sch = namedSchema
             and opts = JUndefined and e = ?err]
  from t'' [THEN conjunct2, THEN conjunct1] b'' sample_oid(2)
  have 4: "deleteOne sampleEnv namedSchema ?bad = ([], Threw ?err)"
    by blast
  show ?thesis
    using a b c 1 2 a' b' 3 a'' b'' 4 by (simp add: nm del: getField.simps)
qed

text \<open>
  Claim C2 as stated fails for \<open>updateOne\<close>: with an identifier in the query
  argument and a schema that projects on \<open>name\<close>, the predicate sent is the
  projection, not the identifier predicate. It also fails for a form that carries a
  falsy \<open>_id\<close>, here the empty string, which \<open>deleteOne\<close> treats as absent.
\<close>

theorem identity_resolution_counterexample:
  "getField (JObj [(''_id'', JStr ''507f1f77bcf86cd799439011''), (''name'', JStr ''ann'')]) ''_id'' =
     Inr (JStr ''507f1f77bcf86cd799439011'') \<and>
   truthy (JStr ''507f1f77bcf86cd799439011'') \<and>
   ObjectID sampleEnv (JStr ''507f1f77bcf86cd799439011'') =
     Inr (JObj [(''$oid'', JStr ''507f1f77bcf86cd799439011'')]) \<and>
   fst (updateOne sampleEnv namedSchema (JObj [(''name'', JStr ''bob'')])
          (JObj [(''_id'', JStr ''507f1f77bcf86cd799439011''), (''name'', JStr ''ann'')])) =
     [Call ''activity'' ''updateOne''
        [JObj [(''name'', JStr ''ann'')], JObj [(''$set'', JObj [(''name'', JStr ''bob'')])]]] \<and>
   predicateOf (Call ''activity'' ''updateOne''
        [JObj [(''name'', JStr ''ann'')], JObj [(''$set'', JObj [(''name'', JStr ''bob'')])]]) \<noteq>
     JObj [(''_id'', JObj [(''$oid'', JStr ''507f1f77bcf86cd799439011'')])] \<and>
   getField (JObj [(''_id'', JStr []), (''name'', JStr ''ann'')]) ''_id'' = Inr (JStr []) \<and>
   fst (deleteOne sampleEnv namedSchema (JObj [(''_id'', JStr []), (''name'', JStr ''ann'')])) =
     [Call ''activity'' ''deleteOne'' [JObj [(''name'', JStr ''ann'')]]]"
proof -
  have 1: "fst (updateOne sampleEnv namedSchema (JObj [(''name'', JStr ''bob'')])
          (JObj [(''_id'', JStr ''507f1f77bcf86cd799439011''), (''name'', JStr ''ann'')])) =
     [Call ''activity'' ''updateOne''
        [JObj [(''name'', JStr ''ann'')], JObj [(''$set'', JObj [(''name'', JStr ''bob'')])]]]"
    by (simp add: updateOne_def queryObjectOf_def applyBeforeSave_def fixture_defs Let_def fst_query)
  have 2: "fst (deleteOne sampleEnv namedSchema (JObj [(''_id'', JStr []), (''name'', JStr ''ann'')])) =
     [Call ''activity'' ''deleteOne'' [JObj [(''name'', JStr ''ann'')]]]"
    by (simp add: deleteOne_def paramsOf_def bindE_def queryObjectOf_def fixture_defs Let_def fst_query)
  show ?thesis using 1 2 sample_oid(1) by simp
qed

text \<open>
  \<open>updateOneSimple\<close> never consults \<open>isEmpty\<close>: with the connection up, any truthy
  query reaches the store, whatever its resolved predicate and document are.
\<close>

lemma updateOneSimple_unguarded:
  "connectErr env = None \<Longrightarrow> truthy qry \<Longrightarrow>
     fst (updateOneSimple env sch form qry) =
       [Call (collectionName sch) ''updateOne''
          [toSimpleObject env qry, JObj [(''$set'', toSimpleObject env form)]]]"
  by (simp add: updateOneSimple_def Let_def fst_query)

text \<open>
  Claim C1 at its failing inputs. \<open>updateOneSimple\<close> asserts only that the query is
  truthy, which \<open>{}\<close> is, and sends the empty predicate; \<open>updateManySimple\<close> tests
  the raw query, so \<open>{name: null}\<close> passes and resolves to the empty predicate; the
  \<open>upsertOne\<close> override of the activity adapter has no guard and sends an empty
  on-insert predicate.
\<close>

theorem unguarded_updates_reach_store:
  "truthy (JObj []) \<and> isEmpty sampleEnv (toSimpleObject sampleEnv (JObj [])) \<and>
   updateOneSimple sampleEnv sampleSchema (JObj [(''name'', JStr ''ann'')]) (JObj []) =
     ([Call ''activity'' ''updateOne'' [JObj [], JObj [(''$set'', JObj [(''name'', JStr ''ann'')])]]],
      Resolved (JNum 1)) \<and>
   isEmpty sampleEnv (toSimpleObject sampleEnv (JObj [(''name'', JNull)])) \<and>
   updateManySimple sampleEnv sampleSchema (JObj [(''name'', JStr ''ann'')]) (JObj [(''name'', JNull)]) =
     ([Call ''activity'' ''updateMany'' [JObj [], JObj [(''$set'', JObj [(''name'', JStr ''ann'')])]]],
      Resolved (JNum 1)) \<and>
   issued (upsertOneActivity sampleEnv sampleAdapter (JObj [(''name'', JStr ''ann'')])) =
     [Call ''activity'' ''updateOne''
        [JObj [], JObj [(''$setOnInsert'', JObj []), (''$set'', JObj [(''name'', JStr ''ann'')])],
         JObj [(''upsert'', JBool True)]],
      Call ''activity_log'' ''insertOne'' [JObj [(''name'', JStr ''ann'')]],
      Call ''activity'' ''createIndex'' [JObj [(''location'', JStr ''2dsphere'')]]]"
proof -
  have 1: "updateOneSimple sampleEnv sampleSchema (JObj [(''name'', JStr ''ann'')]) (JObj []) =
     ([Call ''activity'' ''updateOne'' [JObj [], JObj [(''$set'', JObj [(''name'', JStr ''ann'')])]]],
      Resolved (JNum 1))"
    by (simp add: updateOneSimple_def fixture_defs Let_def sync_assert sync_Inr query_def andThen_def)
  have 2: "updateManySimple sampleEnv sampleSchema (JObj [(''name'', JStr ''ann'')]) (JObj [(''name'', JNull)]) =
     ([Call ''activity'' ''updateMany'' [JObj [], JObj [(''$set'', JObj [(''name'', JStr ''ann'')])]]],
      Resolved (JNum 1))"
    by (simp add: updateManySimple_def fixture_defs Let_def sync_assert sync_Inr query_def andThen_def)
  have 3: "issued (upsertOneActivity sampleEnv sampleAdapter (JObj [(''name'', JStr ''ann'')])) =
     [Call ''activity'' ''updateOne''
        [JObj [], JObj [(''$setOnInsert'', JObj []), (''$set'', JObj [(''name'', JStr ''ann'')])],
         JObj [(''upsert'', JBool True)]],
      Call ''activity_log'' ''insertOne'' [JObj [(''name'', JStr ''ann'')]],
      Call ''activity'' ''createIndex'' [JObj [(''location'', JStr ''2dsphere'')]]]"
    by (simp add: upsertOneActivity_def fixture_defs applyBeforeSave_def Let_def fst_query)
  have 4: "isEmpty sampleEnv (toSimpleObject sampleEnv (JObj []))"
    "isEmpty sampleEnv (toSimpleObject sampleEnv (JObj [(''name'', JNull)]))"
    by (simp_all add: fixture_defs)
  show ?thesis using 1 2 3 4 by simp
qed

text \<open>
  The operations that do hold the guard: with an empty predicate or an empty document
  they issue no store command.
\<close>

lemma guard_enforced:
  "isEmpty env (toInsertObject sch (applyBeforeSave sch True (construct sch model))) \<Longrightarrow>
     fst (insertOne env sch model) = []"
  "isEmpty env (queryObjectOf env sch (construct sch model) params) \<or>
   isEmpty env (toFormObject sch (applyBeforeSave sch False (construct sch model))) \<Longrightarrow>
     fst (updateOne env sch model params) = [] \<and> fst (updateMany env sch model params) = [] \<and>
     fst (getOneAndUpdate env sch model params opts) = []"
  "isEmpty env (queryObjectOf env sch (construct sch model) params) \<or>
   isEmpty env (toUpsertObject sch (applyBeforeSave sch False (construct sch model))) \<Longrightarrow>
     fst (getOneAndUpsert env sch model params opts) = []"
  "getField (toUpsertObject sch (applyBeforeSave sch True (construct sch model))) ''$setOnInsert'' = Inr p \<Longrightarrow>
   isEmpty env p \<or> isEmpty env (toUpsertObject sch (applyBeforeSave sch True (construct sch model))) \<Longrightarrow>
     fst (upsertOne env sch model) = []"
  "paramsOf env sch (construct sch JUndefined) form = Inr q \<Longrightarrow> isEmpty env q \<Longrightarrow>
     fst (deleteOne env sch form) = []"
  "isEmpty env (queryObjectOf env sch (construct sch JUndefined) form) \<Longrightarrow>
     fst (deleteMany env sch form) = []"
  "isEmpty env (toSimpleObject env form) \<Longrightarrow>
     fst (deleteOneSimple env sch form) = [] \<and> fst (deleteManySimple env sch form) = []"
  by (auto simp: insertOne_def updateOne_def updateMany_def getOneAndUpdate_def getOneAndUpsert_def
        upsertOne_def deleteOne_def deleteMany_def deleteOneSimple_def deleteManySimple_def
        Let_def fst_sync_bindE split: sum.splits simp del: getField.simps)

section \<open>ProximityQueryBuilder: properties\<close>

lemma sideEffectCall_updateOne [simp]: "\<not> sideEffectCall ad (Call coll ''updateOne'' args)"
  by (simp add: sideEffectCall_def)

lemma primary_upsertOneActivity:
  "primary (upsertOneActivity env ad model) =
     (case connectErr env of
        Some e \<Rightarrow> Rejected e
      | None \<Rightarrow>
         (case getField (toUpsertObject (modelSchema ad)
                  (applyBeforeSave (modelSchema ad) True (construct (modelSchema ad) model))) ''$setOnInsert'' of
            Inl e \<Rightarrow> Rejected e
          | Inr p \<Rightarrow>
             (case respond env (Call (collectionName (modelSchema ad)) ''updateOne''
                      [p, toUpsertObject (modelSchema ad)
                            (applyBeforeSave (modelSchema ad) True (construct (modelSchema ad) model)),
                       JObj [(''upsert'', JBool True)]]) of
                Ok result \<Rightarrow>
                  (case getField result ''upsertedId'' of
                     Inl e \<Rightarrow> Rejected e
                   | Inr upsertedId \<Rightarrow>
                       Resolved (AList.update ''_id'' upsertedId
                         (applyBeforeSave (modelSchema ad) True (construct (modelSchema ad) model))))
              | MongoErr e \<Rightarrow> Rejected (StoreError e)
              | OtherErr e \<Rightarrow> Rejected (UnexpectedError e))))"
  by (simp add: upsertOneActivity_def Let_def split: option.splits sum.splits reply.splits
        del: getField.simps)

text \<open>
  Claim C9. Two stores that agree on every command other than the two side effects (the
  insert into the log collection and the index creation), with the same connection
  outcome, give the \<open>upsertOne\<close> override the same primary outcome; and when the
  primary \<open>updateOne\<close> of one of them succeeds with a readable result, the override
  resolves with the entity in the other as well, whatever the side effects did there.
\<close>

theorem upsert_side_effects_invisible:
  assumes "connectErr env' = connectErr env"
    and "\<forall>c. \<not> sideEffectCall ad c \<longrightarrow> respond env' c = respond env c"
  shows "primary (upsertOneActivity env' ad model) = primary (upsertOneActivity env ad model) \<and>
         (connectErr env = None \<and>
          getField (toUpsertObject (modelSchema ad)
             (applyBeforeSave (modelSchema ad) True (construct (modelSchema ad) model))) ''$setOnInsert'' = Inr p \<and>
          respond env (Call (collectionName (modelSchema ad)) ''updateOne''
             [p, toUpsertObject (modelSchema ad)
                   (applyBeforeSave (modelSchema ad) True (construct (modelSchema ad) model)),
              JObj [(''upsert'', JBool True)]]) = Ok result \<and>
          getField result ''upsertedId'' = Inr upsertedId \<longrightarrow>
          primary (upsertOneActivity env' ad model) =
            Resolved (AList.update ''_id'' upsertedId
              (applyBeforeSave (modelSchema ad) True (construct (modelSchema ad) model))))"
proof -
  have r: "respond env' (Call coll ''updateOne'' args) = respond env (Call coll ''updateOne'' args)"
    for coll args
    using assms(2) by simp
  have e: "primary (upsertOneActivity env' ad model) = primary (upsertOneActivity env ad model)"
    by (simp only: primary_upsertOneActivity assms(1) r)
  moreover have "primary (upsertOneActivity env ad model) =
            Resolved (AList.update ''_id'' upsertedId
              (applyBeforeSave (modelSchema ad) True (construct (modelSchema ad) model)))"
    if "connectErr env = None"
      "getField (toUpsertObject (modelSchema ad)
             (applyBeforeSave (modelSchema ad) True (construct (modelSchema ad) model))) ''$setOnInsert'' = Inr p"
      "respond env (Call (collectionName (modelSchema ad)) ''updateOne''
             [p, toUpsertObject (modelSchema ad)
                   (applyBeforeSave (modelSchema ad) True (construct (modelSchema ad) model)),
              JObj [(''upsert'', JBool True)]]) = Ok result"
      "getField result ''upsertedId'' = Inr upsertedId"
    using that by (simp add: primary_upsertOneActivity del: getField.simps)
  ultimately show ?thesis by simp
qed

text \<open>
  The sample store and the store whose side effects fail: the same resolved entity,
  while the detached tasks are rejected in one and resolved in the other.
\<close>

theorem upsert_side_effects_invisible_witness:
  "connectErr failingEnv = connectErr sampleEnv \<and>
   primary (upsertOneActivity failingEnv sampleAdapter (JObj [(''userId'', JStr ''u1'')])) =
     primary (upsertOneActivity sampleEnv sampleAdapter (JObj [(''userId'', JStr ''u1'')])) \<and>
   primary (upsertOneActivity failingEnv sampleAdapter (JObj [(''userId'', JStr ''u1'')])) =
     Resolved [(''userId'', JStr ''u1''), (''_id'', JNull)] \<and>
   detached (upsertOneActivity failingEnv sampleAdapter (JObj [(''userId'', JStr ''u1'')])) =
     [Rejected (UnexpectedError (JStr ''down'')), Rejected (UnexpectedError (JStr ''down''))] \<and>
   detached (upsertOneActivity sampleEnv sampleAdapter (JObj [(''userId'', JStr ''u1'')])) =
     [Resolved JUndefined, Resolved JUndefined]"
proof -
  let ?m = "JObj [(''userId'', JStr ''u1'')]"
  have a: "connectErr failingEnv = connectErr sampleEnv"
    by (simp add: failingEnv_def)
  have b: "\<forall>c. \<not> sideEffectCall sampleAdapter c \<longrightarrow> respond failingEnv c = respond sampleEnv c"
    by (simp add: failingEnv_def sampleEnv_def)
  have c: "connectErr sampleEnv = None"
    by (simp add: sampleEnv_def)
  have d: "getField (toUpsertObject (modelSchema sampleAdapter)
             (applyBeforeSave (modelSchema sampleAdapter) True (construct (modelSchema sampleAdapter) ?m)))
             ''$setOnInsert'' = Inr ?m"
    by (simp add: fixture_defs applyBeforeSave_def)
  have e: "respond sampleEnv x = Ok sampleEnvelope" for x
    by (simp add: sampleEnv_def)
  have f: "getField sampleEnvelope ''upsertedId'' = Inr JNull"
    by (simp add: sampleEnvelope_def)
  have g: "AList.update ''_id'' JNull
              (applyBeforeSave (modelSchema sampleAdapter) True (construct (modelSchema sampleAdapter) ?m)) =
           [(''userId'', JStr ''u1''), (''_id'', JNull)]"
    by (simp add: fixture_defs applyBeforeSave_def)
  note t = upsert_side_effects_invisible [OF a b, of ?m ?m sampleEnvelope JNull]
  from t have 0: "primary (upsertOneActivity failingEnv sampleAdapter ?m) =
             primary (upsertOneActivity sampleEnv sampleAdapter ?m)"
    by (rule conjunct1)
  from t [THEN conjunct2] c d e f
  have "primary (upsertOneActivity failingEnv sampleAdapter ?m) =
          Resolved (AList.update ''_id'' JNull
              (applyBeforeSave (modelSchema sampleAdapter) True (construct (modelSchema sampleAdapter) ?m)))"
    by (simp del: getField.simps)
  then have 1: "primary (upsertOneActivity failingEnv sampleAdapter ?m) =
             Resolved [(''userId'', JStr ''u1''), (''_id'', JNull)]"
    by (simp only: g)
  have 2: "detached (upsertOneActivity failingEnv sampleAdapter ?m) =
     [Rejected (UnexpectedError (JStr ''down'')), Rejected (UnexpectedError (JStr ''down''))]"
    by (simp add: upsertOneActivity_def fixture_defs applyBeforeSave_def Let_def query_def andThen_def
          sideEffectCall_def promiseOf_def)
  have 3: "detached (upsertOneActivity sampleEnv sampleAdapter ?m) =
     [Resolved JUndefined, Resolved JUndefined]"
    by (simp add: upsertOneActivity_def sampleEnv_def sampleSchema_def sampleAdapter_def fieldsOf_def
          applyBeforeSave_def Let_def query_def andThen_def bindE_def promiseOf_def)
       (simp add: sampleEnvelope_def)
  show ?thesis using a 0 1 2 3 by simp
qed

lemma activities_groupFirst:
  "activities (groupFirst pk ''activity'' seen ds) = Inr (firstPerKey pk seen ds)"
  by (induction ds arbitrary: seen) (simp_all add: bindE_def)

lemma firstPerKey_subset: "set (firstPerKey pk seen ds) \<subseteq> set ds"
  by (induction ds arbitrary: seen) auto

lemma firstPerKey_keys:
  "docKey pk ` set (firstPerKey pk seen ds) = docKey pk ` set ds - set seen"
  by (induction ds arbitrary: seen) auto

lemma firstPerKey_distinct: "distinct (map (docKey pk) (firstPerKey pk seen ds))"
  by (induction ds arbitrary: seen) (auto simp: firstPerKey_keys)

lemma firstPerKey_find:
  "r \<in> set (firstPerKey pk seen ds) \<Longrightarrow> find (\<lambda>d. docKey pk d = docKey pk r) ds = Some r"
proof (induction ds arbitrary: seen)
  case Nil
  then show ?case by simp
next
  case (Cons d ds)
  show ?case
  proof (cases "docKey pk d \<in> set seen")
    case True
    with Cons.prems have r: "r \<in> set (firstPerKey pk seen ds)" by simp
    then have "docKey pk r \<in> docKey pk ` set (firstPerKey pk seen ds)" by blast
    then have "docKey pk r \<notin> set seen" by (simp add: firstPerKey_keys)
    with True have "docKey pk d \<noteq> docKey pk r" by auto
    with Cons.IH [OF r] show ?thesis by simp
  next
    case False
    with Cons.prems have "r = d \<or> r \<in> set (firstPerKey pk (docKey pk d # seen) ds)" by simp
    then show ?thesis
    proof
      assume "r = d"
      then show ?thesis by simp
    next
      assume r: "r \<in> set (firstPerKey pk (docKey pk d # seen) ds)"
      then have "docKey pk r \<in> docKey pk ` set (firstPerKey pk (docKey pk d # seen) ds)" by blast
      then have "docKey pk r \<noteq> docKey pk d" by (simp add: firstPerKey_keys)
      with Cons.IH [OF r] show ?thesis by simp
    qed
  qed
qed

lemma distinct_count_one:
  "distinct (map f xs) \<Longrightarrow> k \<in> f ` set xs \<Longrightarrow> length (filter (\<lambda>x. f x = k) xs) = 1"
proof (induction xs)
  case Nil
  then show ?case by simp
next
  case (Cons x xs)
  show ?case
  proof (cases "f x = k")
    case True
    with Cons.prems have "\<forall>y\<in>set xs. f y \<noteq> k" by (fastforce simp: image_iff)
    then have "filter (\<lambda>x. f x = k) xs = []" by (simp add: filter_empty_conv)
    with True show ?thesis by simp
  next
    case False
    with Cons show ?thesis by auto
  qed
qed

lemma findAroundQuery_shape:
  assumes "findAroundQuery ad geoParams actParams = Inr queryData"
  shows "\<exists>g. queryData =
     [JObj [(''$geoNear'', g)],
      JObj [(''$sort'', JObj [(''distance'', JNum (- 1)), (''status'', JNum (- 1))])],
      JObj [(''$group'', JObj [(''_id'', JStr (CHR ''$'' # primaryKey ad)),
                               (''activity'', JObj [(''$first'', JStr ''$$ROOT'')])])]]"
  using assms
  by (auto simp: findAroundQuery_def bindE_def Let_def split: sum.splits simp del: getField.simps)

lemma runStage_geoNear: "runStage env (JObj [(''$geoNear'', g)]) docs = Inr (geoNear env g)"
  by (simp add: runStage_def)

lemma runStage_sort: "runStage env (JObj [(''$sort'', s)]) docs = Inr (sortDocs env s docs)"
  by (simp add: runStage_def)

lemma runStage_group:
  "runStage env (JObj [(''$group'', JObj [(''_id'', JStr (CHR ''$'' # pk)),
                               (fld, JObj [(''$first'', JStr ''$$ROOT'')])])]) docs =
     Inr (groupFirst pk fld [] docs)"
  by (simp add: runStage_def)

lemma runStage_limit: "runStage env (JObj [(''$limit'', JNum n)]) docs = Inr (take (nat n) docs)"
  by (simp add: runStage_def)

lemma runPipeline_snoc:
  "runPipeline env (stages @ [stage]) docs = bindE (runPipeline env stages docs) (runStage env stage)"
  by (induction stages arbitrary: docs) (simp_all add: bindE_def split: sum.splits)

text \<open>
  Claim C7. With the connection up and a pipeline built, \<open>findManyAround\<close> resolves
  to a list that holds, for every primary key among the candidates after the sort
  stage, exactly one document of that key, and every document of the list is the first
  candidate of its key.
\<close>

theorem findManyAround_one_per_key:
  assumes "connectErr env = None"
    and "findAroundQuery ad geoParams actParams = Inr queryData"
  shows "\<exists>cands results.
           runPipeline env (take 2 queryData) [] = Inr cands \<and>
           snd (findManyAround env ad geoParams actParams) = Resolved results \<and>
           (\<forall>k \<in> docKey (primaryKey ad) ` set cands.
              length (filter (\<lambda>r. docKey (primaryKey ad) r = k) results) = 1) \<and>
           (\<forall>r \<in> set results.
              find (\<lambda>d. docKey (primaryKey ad) d = docKey (primaryKey ad) r) cands = Some r)"
proof -
  let ?pk = "primaryKey ad"
  let ?srt = "JObj [(''distance'', JNum (- 1)), (''status'', JNum (- 1))]"
  from findAroundQuery_shape [OF assms(2)] obtain g where q: "queryData =
     [JObj [(''$geoNear'', g)], JObj [(''$sort'', ?srt)],
      JObj [(''$group'', JObj [(''_id'', JStr (CHR ''$'' # ?pk)),
                               (''activity'', JObj [(''$first'', JStr ''$$ROOT'')])])]]"
    by blast
  let ?cands = "sortDocs env ?srt (geoNear env g)"
  let ?results = "firstPerKey ?pk [] ?cands"
  have c: "runPipeline env (take 2 queryData) [] = Inr ?cands"
    by (simp add: q bindE_def runStage_geoNear runStage_sort)
  have p: "runPipeline env queryData [] = Inr (groupFirst ?pk ''activity'' [] ?cands)"
    by (simp add: q bindE_def runStage_geoNear runStage_sort runStage_group)
  have r: "snd (findManyAround env ad geoParams actParams) = Resolved ?results"
    using assms by (simp add: findManyAround_def aggregate_def andThen_def p activities_groupFirst)
  have one: "\<forall>k \<in> docKey ?pk ` set ?cands. length (filter (\<lambda>r. docKey ?pk r = k) ?results) = 1"
  proof
    fix k assume "k \<in> docKey ?pk ` set ?cands"
    then have "k \<in> docKey ?pk ` set ?results" by (simp add: firstPerKey_keys)
    then show "length (filter (\<lambda>r. docKey ?pk r = k) ?results) = 1"
      by (rule distinct_count_one [OF firstPerKey_distinct])
  qed
  have first: "\<forall>r \<in> set ?results. find (\<lambda>d. docKey ?pk d = docKey ?pk r) ?cands = Some r"
    by (simp add: firstPerKey_find)
  show ?thesis using c r one first by blast
qed

lemma sample_query:
  "findAroundQuery sampleAdapter (JObj [(''geometry'', JNum 0)]) (JObj [(''activity'', JNull)]) =
     Inr [JObj [(''$geoNear'', JObj [(''near'', JNum 0), (''maxDistance'', JUndefined),
                                    (''minDistance'', JUndefined), (''distanceField'', JStr ''distance''),
                                    (''query'', JObj []), (''spherical'', JBool True)])],
          JObj [(''$sort'', JObj [(''distance'', JNum (- 1)), (''status'', JNum (- 1))])],
          JObj [(''$group'', JObj [(''_id'', JStr ''$userId''),
                                   (''activity'', JObj [(''$first'', JStr ''$$ROOT'')])])]]"
  by (simp add: findAroundQuery_def bindE_def orUndefined_def sampleAdapter_def)

lemma sample_many:
  "connectErr e = None \<Longrightarrow> geoNear e = (\<lambda>spec. sampleDocs) \<Longrightarrow> sortDocs e = (\<lambda>spec docs. docs) \<Longrightarrow>
   snd (findManyAround e sampleAdapter (JObj [(''geometry'', JNum 0)]) (JObj [(''activity'', JNull)])) =
     Resolved [JObj [(''userId'', JStr ''u1''), (''distance'', JNum 9)],
               JObj [(''userId'', JStr ''u2''), (''distance'', JNum 5)]]"
  by (simp add: findManyAround_def sample_query aggregate_def andThen_def bindE_def
        runStage_geoNear runStage_sort runStage_group sampleDocs_def docKey_def)

text \<open>
  Three candidates, two of them of the key \<open>u1\<close>: the result holds one document of
  that key, the first one.
\<close>

theorem findManyAround_one_per_key_witness:
  "connectErr sampleEnv = None \<and>
   runPipeline sampleEnv
     (take 2 [JObj [(''$geoNear'', JObj [(''near'', JNum 0), (''maxDistance'', JUndefined),
                                    (''minDistance'', JUndefined), (''distanceField'', JStr ''distance''),
                                    (''query'', JObj []), (''spherical'', JBool True)])],
          JObj [(''$sort'', JObj [(''distance'', JNum (- 1)), (''status'', JNum (- 1))])],
          JObj [(''$group'', JObj [(''_id'', JStr ''$userId''),
                                   (''activity'', JObj [(''$first'', JStr ''$$ROOT'')])])]]) [] =
     Inr [JObj [(''userId'', JStr ''u1''), (''distance'', JNum 9)],
          JObj [(''userId'', JStr ''u2''), (''distance'', JNum 5)],
          JObj [(''userId'', JStr ''u1''), (''distance'', JNum 2)]] \<and>
   snd (findManyAround sampleEnv sampleAdapter (JObj [(''geometry'', JNum 0)]) (JObj [(''activity'', JNull)])) =
     Resolved [JObj [(''userId'', JStr ''u1''), (''distance'', JNum 9)],
               JObj [(''userId'', JStr ''u2''), (''distance'', JNum 5)]] \<and>
   length (filter (\<lambda>r. docKey (primaryKey sampleAdapter) r = JStr ''u1'')
     [JObj [(''userId'', JStr ''u1''), (''distance'', JNum 9)],
      JObj [(''userId'', JStr ''u2''), (''distance'', JNum 5)]]) = 1"
proof -
  let ?G = "JObj [(''geometry'', JNum 0)]" and ?A = "JObj [(''activity'', JNull)]"
  let ?R = "[JObj [(''userId'', JStr ''u1''), (''distance'', JNum 9)],
             JObj [(''userId'', JStr ''u2''), (''distance'', JNum 5)]]"
  have a: "connectErr sampleEnv = None" by (simp add: sampleEnv_def)
  note b = sample_query
  have c: "runPipeline sampleEnv
     (take 2 [JObj [(''$geoNear'', JObj [(''near'', JNum 0), (''maxDistance'', JUndefined),
                                    (''minDistance'', JUndefined), (''distanceField'', JStr ''distance''),
                                    (''query'', JObj []), (''spherical'', JBool True)])],
          JObj [(''$sort'', JObj [(''distance'', JNum (- 1)), (''status'', JNum (- 1))])],
          JObj [(''$group'', JObj [(''_id'', JStr ''$userId''),
                                   (''activity'', JObj [(''$first'', JStr ''$$ROOT'')])])]]) [] =
     Inr sampleDocs"
    by (simp add: bindE_def runStage_geoNear runStage_sort sampleEnv_def)
  have r: "snd (findManyAround sampleEnv sampleAdapter ?G ?A) = Resolved ?R"
    by (rule sample_many) (simp_all add: sampleEnv_def)
  from findManyAround_one_per_key [OF a b] obtain cands results
    where 1: "runPipeline sampleEnv
     (take 2 [JObj [(''$geoNear'', JObj [(''near'', JNum 0), (''maxDistance'', JUndefined),
                                    (''minDistance'', JUndefined), (''distanceField'', JStr ''distance''),
                                    (''query'', JObj []), (''spherical'', JBool True)])],
          JObj [(''$sort'', JObj [(''distance'', JNum (- 1)), (''status'', JNum (- 1))])],
          JObj [(''$group'', JObj [(''_id'', JStr ''$userId''),
                                   (''activity'', JObj [(''$first'', JStr ''$$ROOT'')])])]]) [] = Inr cands"
      and 2: "snd (findManyAround sampleEnv sampleAdapter ?G ?A) = Resolved results"
      and 3: "\<forall>k \<in> docKey (primaryKey sampleAdapter) ` set cands.
              length (filter (\<lambda>r. docKey (primaryKey sampleAdapter) r = k) results) = 1"
    by blast
  from 1 c have cs: "cands = sampleDocs" by simp
  from 2 r have rs: "results = ?R" by simp
  have "JStr ''u1'' \<in> docKey (primaryKey sampleAdapter) ` set sampleDocs"
    by (simp add: sampleDocs_def sampleAdapter_def docKey_def)
  with 3 cs rs have "length (filter (\<lambda>r. docKey (primaryKey sampleAdapter) r = JStr ''u1'') ?R) = 1"
    by blast
  with a c r show ?thesis by (simp add: sampleDocs_def)
qed

text \<open>
  Claim C8. Whenever \<open>findManyAround\<close> resolves to a list, \<open>findOneAround\<close> with
  the same arguments resolves to \<open>null\<close> if the list is empty and to its first
  element otherwise.
\<close>

theorem findOneAround_is_first_of_many:
  assumes "snd (findManyAround env ad geoParams actParams) = Resolved results"
  shows "snd (findOneAround env ad geoParams actParams) =
           Resolved (case results of [] \<Rightarrow> JNull | r # rs \<Rightarrow> r)"
proof -
  from assms have conn: "connectErr env = None"
    by (auto simp: findManyAround_def split: option.splits)
  with assms obtain q where q: "findAroundQuery ad geoParams actParams = Inr q"
    by (cases "findAroundQuery ad geoParams actParams") (auto simp: findManyAround_def)
  with assms conn obtain docs where d: "runPipeline env q [] = Inr docs"
    and a: "activities docs = Inr results"
    by (cases "runPipeline env q []"; cases "activities docs")
       (auto simp: findManyAround_def aggregate_def andThen_def split: sum.splits)
  have l: "runPipeline env (q @ [JObj [(''$limit'', JNum 1)]]) [] = Inr (take 1 docs)"
    by (simp add: runPipeline_snoc d bindE_def runStage_limit)
  have h: "(case take (Suc 0) docs of [] \<Rightarrow> Inr JNull | r # rs \<Rightarrow> getField r ''activity'') =
           Inr (case results of [] \<Rightarrow> JNull | r # rs \<Rightarrow> r)"
    using a by (cases docs) (auto simp: bindE_def split: sum.splits simp del: getField.simps)
  show ?thesis
    using conn q by (simp add: findOneAround_def aggregate_def andThen_def l h)
qed

text \<open>
  With candidates the first of them, without candidates \<open>null\<close>.
\<close>

theorem findOneAround_is_first_of_many_witness:
  "snd (findManyAround sampleEnv sampleAdapter (JObj [(''geometry'', JNum 0)]) (JObj [(''activity'', JNull)])) =
     Resolved [JObj [(''userId'', JStr ''u1''), (''distance'', JNum 9)],
               JObj [(''userId'', JStr ''u2''), (''distance'', JNum 5)]] \<and>
   snd (findOneAround sampleEnv sampleAdapter (JObj [(''geometry'', JNum 0)]) (JObj [(''activity'', JNull)])) =
     Resolved (JObj [(''userId'', JStr ''u1''), (''distance'', JNum 9)]) \<and>
   snd (findManyAround (sampleEnv\<lparr>geoNear := \<lambda>spec. []\<rparr>) sampleAdapter
          (JObj [(''geometry'', JNum 0)]) (JObj [(''activity'', JNull)])) = Resolved [] \<and>
   snd (findOneAround (sampleEnv\<lparr>geoNear := \<lambda>spec. []\<rparr>) sampleAdapter
          (JObj [(''geometry'', JNum 0)]) (JObj [(''activity'', JNull)])) = Resolved JNull"
proof -
  let ?G = "JObj [(''geometry'', JNum 0)]" and ?A = "JObj [(''activity'', JNull)]"
  have r: "snd (findManyAround sampleEnv sampleAdapter ?G ?A) =
     Resolved [JObj [(''userId'', JStr ''u1''), (''distance'', JNum 9)],
               JObj [(''userId'', JStr ''u2''), (''distance'', JNum 5)]]"
    by (rule sample_many) (simp_all add: sampleEnv_def)
  have e: "snd (findManyAround (sampleEnv\<lparr>geoNear := \<lambda>spec. []\<rparr>) sampleAdapter ?G ?A) = Resolved []"
    by (simp add: findManyAround_def sample_query aggregate_def andThen_def bindE_def
        runStage_geoNear runStage_sort runStage_group sampleEnv_def)
  from findOneAround_is_first_of_many [OF r]
  have 1: "snd (findOneAround sampleEnv sampleAdapter ?G ?A) =
     Resolved (JObj [(''userId'', JStr ''u1''), (''distance'', JNum 9)])"
    by simp
  from findOneAround_is_first_of_many [OF e]
  have 2: "snd (findOneAround (sampleEnv\<lparr>geoNear := \<lambda>spec. []\<rparr>) sampleAdapter ?G ?A) = Resolved JNull"
    by simp
  show ?thesis using r e 1 2 by simp
qed

end
